theory Spec2Isabelle
  imports Complex_Main "HOL-Library.AList"
begin

section \<open>Layout values\<close>

text \<open>
  The generators of \<^verbatim>\<open>ihp/cells/inductors.py\<close> and \<^verbatim>\<open>ihp/cells/bondpads.py\<close> build a
  gdsfactory \<^verbatim>\<open>Component\<close> by mutating it: references to primitive cells are added with
  \<^verbatim>\<open>c << cell\<close> or \<^verbatim>\<open>c.add_ref(cell)\<close>, polygons with \<^verbatim>\<open>c.add_polygon\<close>, ports with
  \<^verbatim>\<open>c.add_port\<close> and metadata with \<^verbatim>\<open>c.info[key] = value\<close>. The model passes the component
  explicitly and records every one of these calls, in the order the code makes them.
  The decorator \<^verbatim>\<open>@gf.cell\<close> of the generators belongs to the library (it names and caches
  the cell a call returns) and is left out.

  Python floats are modelled as exact reals: the theorems below are statements of exact
  arithmetic about the formulas of the code, and say nothing about rounding error of
  IEEE doubles.
\<close>

type_synonym point = "real \<times> real"

text \<open>A layer is given by name (\<^verbatim>\<open>"TopMetal2drawing"\<close>) or as a numeric pair (\<^verbatim>\<open>(134, 0)\<close>).\<close>

datatype layer_spec = LayerName string | LayerPair nat nat

datatype pyval = PyFloat real | PyInt int | PyStr string | PyBool bool | PyLayer layer_spec

datatype error = ValueError string | TypeError string | KeyError string

text \<open>
  The arguments of one \<^verbatim>\<open>add_port\<close> call. \<open>port_type\<close> is \<open>None\<close> where the call does not
  pass it (the library's default then applies).
\<close>

record port =
  port_name :: string
  port_center :: point
  port_width :: real
  port_orientation :: real
  port_layer :: layer_spec
  port_type :: "string option"

text \<open>
  The cells a component refers to: the library primitives with the arguments of the call
  that made them (\<open>Rectangle size layer centered\<close>, \<open>Octagon side_length layer\<close>,
  \<open>Circle radius layer\<close>, \<open>Extrude path_points layer width\<close>), or another component.
  Each reference carries the translation applied to it by \<^verbatim>\<open>move\<close> or \<^verbatim>\<open>movex\<close>.
\<close>

datatype cell =
    Rectangle point layer_spec bool
  | Octagon real layer_spec
  | Circle real layer_spec
  | Extrude "point list" layer_spec real
  | Instance component
and component =
  Component (refs: "(cell \<times> point) list")
            (polygons: "(point list \<times> layer_spec) list")
            (ports: "port list")
            (info: "(string \<times> pyval) list")

definition empty_component :: component where
  "empty_component = Component [] [] [] []"

definition add_ref :: "cell \<Rightarrow> point \<Rightarrow> component \<Rightarrow> component" where
  "add_ref cl mv c = Component (refs c @ [(cl, mv)]) (polygons c) (ports c) (info c)"

definition add_polygon :: "point list \<Rightarrow> layer_spec \<Rightarrow> component \<Rightarrow> component" where
  "add_polygon points layer c =
     Component (refs c) (polygons c @ [(points, layer)]) (ports c) (info c)"

definition add_port :: "port \<Rightarrow> component \<Rightarrow> component" where
  "add_port p c = Component (refs c) (polygons c) (ports c @ [p]) (info c)"

definition set_info :: "string \<Rightarrow> pyval \<Rightarrow> component \<Rightarrow> component" where
  "set_info k v c = Component (refs c) (polygons c) (ports c) (AList.update k v (info c))"

text \<open>\<^verbatim>\<open>c.ports[name]\<close>: the port of that name, \<^verbatim>\<open>KeyError\<close> when there is none.\<close>

definition get_port :: "component \<Rightarrow> string \<Rightarrow> error + port" where
  "get_port c n =
     (case filter (\<lambda>p. port_name p = n) (ports c) of
        [] \<Rightarrow> Inl (KeyError n)
      | p # _ \<Rightarrow> Inr p)"

section \<open>Grid quantization\<close>

text \<open>
  Python's \<^verbatim>\<open>round(x)\<close> with one argument returns the nearest integer, a tie going to the
  even neighbour.
\<close>

definition py_round :: "real \<Rightarrow> int" where
  "py_round x =
     (let f = \<lfloor>x\<rfloor>; t = x - of_int f
      in if t < 1/2 then f else if 1/2 < t then f + 1 else if even f then f else f + 1)"

text \<open>
  The two quantizations of \<^verbatim>\<open>inductor2\<close> (lines 73 to 75), with the grid as an argument:
  \<^verbatim>\<open>round(space / grid) * grid\<close> and \<^verbatim>\<open>round(width / (2 * grid)) * 2 * grid\<close>. The code
  calls them with \<^verbatim>\<open>grid = 0.01\<close> only, so no division by zero occurs there.
\<close>

definition fix_grid :: "real \<Rightarrow> real \<Rightarrow> real" where
  "fix_grid v grid = of_int (py_round (v / grid)) * grid"

definition fix_grid2x :: "real \<Rightarrow> real \<Rightarrow> real" where
  "fix_grid2x v grid = of_int (py_round (v / (2 * grid))) * 2 * grid"

section \<open>The inductor generators\<close>

text \<open>
  \<^verbatim>\<open>inductor2\<close> of \<^verbatim>\<open>ihp/cells/inductors.py\<close>, statement by statement. \<^verbatim>\<open>length\<close> of the
  source is \<open>length'\<close> here. \<^verbatim>\<open>math.radians(45)\<close> is \<open>45 * pi / 180\<close>; \<^verbatim>\<open>range(-2, 6)\<close> is
  \<open>[-2..5]\<close> and \<^verbatim>\<open>range(8)\<close> is \<open>[0..7]\<close>. Both branches of the test \<^verbatim>\<open>-2 <= i < 2\<close> in
  the first loop append the same point, and the loop assigns \<^verbatim>\<open>r\<close> the value it already has.
\<close>

definition inductor2 ::
  "real \<Rightarrow> real \<Rightarrow> real \<Rightarrow> real \<Rightarrow> real \<Rightarrow> int \<Rightarrow> bool \<Rightarrow> component" where
  "inductor2 width space diameter resistance inductance turns block_qrc =
    (let c = empty_component;
         TM2 = LayerPair 134 0;
         IND = LayerPair 27 0;
         NoRCX = LayerPair 148 0;
         PWellBlock = LayerPair 46 21;
         TopMetal2Pin = LayerPair 134 2;
         NoFill_layers =
           [LayerPair 1 23, LayerPair 5 23, LayerPair 8 23, LayerPair 10 23, LayerPair 30 23,
            LayerPair 50 23, LayerPair 67 23, LayerPair 126 23, LayerPair 134 23];
         grid = 0.01;
         w = fix_grid2x width grid;
         s = fix_grid space grid;
         d = fix_grid2x diameter grid;
         r = d / 2 + s;
         octagon_center_y = 3 * r;
         pi_over_4 = 45 * pi / 180;
         path_points = [(space / 2, octagon_center_y - r * cos (pi_over_4 / 2))];
         path_points = path_points @
           map (\<lambda>i. let angle = of_int i * pi_over_4 + pi_over_4 / 2;
                       r = d / 2 + s;
                       x = r * cos angle;
                       y = r * sin angle + octagon_center_y
                   in if -2 \<le> i \<and> i < 2 then (x, y) else (x, y)) [-2..5];
         path_points = path_points @ [(- space / 2, octagon_center_y - r * cos (pi_over_4 / 2))];
         c = add_ref (Extrude path_points TM2 w) (0, 0) c;
         length' = 2 * r + s;
         c = add_ref (Rectangle (s, length') TM2 False) (- s - s / 2, 0) c;
         c = add_port \<lparr>port_name = ''P1'', port_center = (- s, s), port_width = s,
                       port_orientation = 270, port_layer = TM2, port_type = None\<rparr> c;
         c = add_ref (Rectangle (s, length') TM2 False) (s - s / 2, 0) c;
         c = add_port \<lparr>port_name = ''P2'', port_center = (s, s), port_width = s,
                       port_orientation = 270, port_layer = TM2, port_type = None\<rparr> c;
         outer_polygon_pts =
           map (\<lambda>i. let r_outer = (d / 2 + length') / cos (pi_over_4 / 2);
                       angle = of_int i * pi_over_4 + pi_over_4 / 2;
                       x = r_outer * cos angle;
                       y = r_outer * sin angle + octagon_center_y
                   in (x, y)) [0..7];
         c = add_polygon outer_polygon_pts IND c;
         c = fold (\<lambda>layer. add_polygon outer_polygon_pts layer) NoFill_layers c;
         c = (if block_qrc then add_polygon outer_polygon_pts NoRCX c else c);
         c = add_polygon outer_polygon_pts PWellBlock c;
         c = add_ref (Rectangle (s, s) TopMetal2Pin False) (s / 2, 0) c;
         c = add_ref (Rectangle (s, s) TopMetal2Pin False) (- s - s / 2, 0) c;
         c = set_info ''resistance'' (PyFloat resistance) c;
         c = set_info ''inductance'' (PyFloat inductance) c;
         c = set_info ''model'' (PyStr ''inductor2'') c;
         c = set_info ''turns'' (PyInt turns) c;
         c = set_info ''width'' (PyFloat width) c;
         c = set_info ''space'' (PyFloat space) c;
         c = set_info ''diameter'' (PyFloat diameter) c
     in c)"

text \<open>
  A Python call binds keyword arguments to the parameters of the callee before its body
  runs. \<^verbatim>\<open>inductor2\<close> declares seven parameters and no \<^verbatim>\<open>**kwargs\<close>, so a keyword argument
  of any other name raises \<^verbatim>\<open>TypeError\<close>. \<open>inductor2_call\<close> is a keyword call of
  \<^verbatim>\<open>inductor2\<close>: the values given for its seven parameters, and the keyword arguments the
  caller passes beyond them. The \<^verbatim>\<open>TypeError\<close> carries the name of the first of these.
\<close>

definition inductor2_call ::
  "real \<Rightarrow> real \<Rightarrow> real \<Rightarrow> real \<Rightarrow> real \<Rightarrow> int \<Rightarrow> bool \<Rightarrow> (string \<times> pyval) list
     \<Rightarrow> error + component" where
  "inductor2_call width space diameter resistance inductance turns block_qrc other_kwargs =
     (case other_kwargs of
        [] \<Rightarrow> Inr (inductor2 width space diameter resistance inductance turns block_qrc)
      | (k, v) # _ \<Rightarrow> Inl (TypeError k))"

text \<open>
  \<^verbatim>\<open>inductor3\<close> calls \<^verbatim>\<open>inductor2\<close> with its eight arguments by keyword, among them
  \<^verbatim>\<open>substrate_etch=substrate_etch\<close>.
\<close>

definition inductor3 ::
  "real \<Rightarrow> real \<Rightarrow> real \<Rightarrow> real \<Rightarrow> real \<Rightarrow> int \<Rightarrow> bool \<Rightarrow> bool \<Rightarrow> error + component" where
  "inductor3 width space diameter resistance inductance turns block_qrc substrate_etch =
     inductor2_call width space diameter resistance inductance turns block_qrc
       [(''substrate_etch'', PyBool substrate_etch)]"

text \<open>The points of the coil path: the path extruded by the first reference of the cell.\<close>

definition coil_path :: "component \<Rightarrow> point list option" where
  "coil_path c =
     (case refs c of
        (Extrude pts layer w, mv) # _ \<Rightarrow> Some pts
      | _ \<Rightarrow> None)"

definition coil_first_point :: "component \<Rightarrow> point option" where
  "coil_first_point c =
     (case coil_path c of
        Some (p # _) \<Rightarrow> Some p
      | _ \<Rightarrow> None)"

definition coil_last_point :: "component \<Rightarrow> point option" where
  "coil_last_point c =
     (case coil_path c of
        Some (p # ps) \<Rightarrow> Some (last (p # ps))
      | _ \<Rightarrow> None)"

section \<open>The bondpad generators\<close>

text \<open>
  \<^verbatim>\<open>bondpad\<close> of \<^verbatim>\<open>ihp/cells/bondpads.py\<close>. \<^verbatim>\<open>gf.snap.snap_to_grid2x\<close> belongs to the
  library, so the model takes it as its first argument. \<^verbatim>\<open>bbox_offsets\<close> is a tuple of
  numbers or \<^verbatim>\<open>None\<close>; \<^verbatim>\<open>bbox_offsets or []\<close> is the empty list when \<^verbatim>\<open>bbox_offsets\<close> is
  \<^verbatim>\<open>None\<close> or empty, and \<^verbatim>\<open>bbox_offsets\<close> itself otherwise.
\<close>

definition or_empty :: "real list option \<Rightarrow> real list" where
  "or_empty bbox_offsets =
     (case bbox_offsets of
        None \<Rightarrow> []
      | Some offs \<Rightarrow> if offs = [] then [] else offs)"

text \<open>
  The body of the loop over the offset layers (lines 71 to 87): the constructor call it
  makes for a layer and an offset, and \<open>None\<close> where none of its three tests holds. The
  call is recorded with its arguments; whether the library accepts them is the matter of
  \<open>bondpad_checked\<close> below.
\<close>

definition opening_cell :: "(real \<Rightarrow> real) \<Rightarrow> string \<Rightarrow> real \<Rightarrow> layer_spec \<Rightarrow> real \<Rightarrow> cell option" where
  "opening_cell snap_to_grid2x shape d layer offset =
     (if shape = ''square'' then
        Some (Rectangle (d + offset, d + offset) layer True)
      else if shape = ''octagon'' then
        (let side_length = snap_to_grid2x (offset + d / (1 + sqrt 2))
         in Some (Octagon side_length layer))
      else if shape = ''circle'' then
        Some (Circle (d / 2 + offset / 2) layer)
      else None)"

definition add_opening ::
  "(real \<Rightarrow> real) \<Rightarrow> string \<Rightarrow> real \<Rightarrow> layer_spec \<times> real \<Rightarrow> component \<Rightarrow> component" where
  "add_opening snap_to_grid2x shape d lo c =
     (case opening_cell snap_to_grid2x shape d (fst lo) (snd lo) of
        Some cl \<Rightarrow> add_ref cl (0, 0) c
      | None \<Rightarrow> c)"

definition bondpad ::
  "(real \<Rightarrow> real) \<Rightarrow> string \<Rightarrow> real \<Rightarrow> layer_spec \<Rightarrow> layer_spec \<Rightarrow> layer_spec
     \<Rightarrow> real list option \<Rightarrow> error + component" where
  "bondpad snap_to_grid2x shape diameter layer_top_metal layer_passiv layer_dfpad bbox_offsets =
    (let c = empty_component;
         d = diameter
     in case (if shape = ''square'' then
                Inr (add_ref (Rectangle (d, d) layer_top_metal True) (0, 0) c)
              else if shape = ''octagon'' then
                (let side_length = snap_to_grid2x (d / (1 + sqrt 2))
                 in Inr (add_ref (Octagon side_length layer_top_metal) (0, 0) c))
              else if shape = ''circle'' then
                Inr (add_ref (Circle (d / 2) layer_top_metal) (0, 0) c)
              else Inl (ValueError (''Unknown shape: '' @ shape))) of
          Inl e \<Rightarrow> Inl e
        | Inr c \<Rightarrow>
           (let bbox_layers = [layer_passiv, layer_dfpad];
                c = fold (add_opening snap_to_grid2x shape d)
                      (zip bbox_layers (or_empty bbox_offsets)) c;
                c = add_port \<lparr>port_name = ''pad'', port_center = (0, 0), port_width = d,
                              port_orientation = 0, port_layer = layer_top_metal,
                              port_type = Some ''electrical''\<rparr> c;
                c = set_info ''shape'' (PyStr shape) c;
                c = set_info ''diameter'' (PyFloat diameter) c;
                c = set_info ''top_metal'' (PyLayer layer_top_metal) c
            in Inr c))"

text \<open>Python's \<^verbatim>\<open>str\<close> of an integer, as the f-string \<^verbatim>\<open>f"pad_{i + 1}"\<close> formats it.\<close>

definition digit_char :: "nat \<Rightarrow> char" where
  "digit_char n = ''0123456789'' ! n"

fun str_nat :: "nat \<Rightarrow> string" where
  "str_nat n = (if n < 10 then [digit_char n] else str_nat (n div 10) @ [digit_char (n mod 10)])"

declare str_nat.simps [simp del]

definition str_int :: "int \<Rightarrow> string" where
  "str_int i = (if i < 0 then CHR ''-'' # str_nat (nat (- i)) else str_nat (nat i))"

text \<open>
  \<^verbatim>\<open>bondpad_array\<close>: the loop over \<^verbatim>\<open>range(n_pads)\<close>, which is \<open>[0..n_pads - 1]\<close>, then the
  metadata. Each turn of the loop calls \<^verbatim>\<open>bondpad\<close>, so an error of \<^verbatim>\<open>bondpad\<close> ends the
  loop and the call.
\<close>

fun bondpad_array_loop ::
  "(real \<Rightarrow> real) \<Rightarrow> real \<Rightarrow> real \<Rightarrow> string \<Rightarrow> layer_spec \<Rightarrow> layer_spec \<Rightarrow> layer_spec
     \<Rightarrow> real list option \<Rightarrow> int list \<Rightarrow> component \<Rightarrow> error + component" where
  "bondpad_array_loop snap_to_grid2x pad_pitch pad_diameter shape layer_top_metal layer_passiv
       layer_dfpad bbox_offsets [] c = Inr c"
| "bondpad_array_loop snap_to_grid2x pad_pitch pad_diameter shape layer_top_metal layer_passiv
       layer_dfpad bbox_offsets (i # rest) c =
     (case bondpad snap_to_grid2x shape pad_diameter layer_top_metal layer_passiv layer_dfpad
             bbox_offsets of
        Inl e \<Rightarrow> Inl e
      | Inr pad \<Rightarrow>
         (let c = add_ref (Instance pad) (of_int i * pad_pitch, 0) c
          in case get_port pad ''pad'' of
               Inl e \<Rightarrow> Inl e
             | Inr p \<Rightarrow>
                (let c = add_port \<lparr>port_name = ''pad_'' @ str_int (i + 1),
                                   port_center = (of_int i * pad_pitch, 0),
                                   port_width = pad_diameter, port_orientation = 0,
                                   port_layer = port_layer p,
                                   port_type = Some ''electrical''\<rparr> c
                 in bondpad_array_loop snap_to_grid2x pad_pitch pad_diameter shape
                      layer_top_metal layer_passiv layer_dfpad bbox_offsets rest c)))"

definition bondpad_array ::
  "(real \<Rightarrow> real) \<Rightarrow> int \<Rightarrow> real \<Rightarrow> real \<Rightarrow> string \<Rightarrow> layer_spec \<Rightarrow> layer_spec \<Rightarrow> layer_spec
     \<Rightarrow> real list option \<Rightarrow> error + component" where
  "bondpad_array snap_to_grid2x n_pads pad_pitch pad_diameter shape layer_top_metal layer_passiv
       layer_dfpad bbox_offsets =
     (case bondpad_array_loop snap_to_grid2x pad_pitch pad_diameter shape layer_top_metal
             layer_passiv layer_dfpad bbox_offsets [0..n_pads - 1] empty_component of
        Inl e \<Rightarrow> Inl e
      | Inr c \<Rightarrow>
         (let c = set_info ''n_pads'' (PyInt n_pads) c;
              c = set_info ''pad_pitch'' (PyFloat pad_pitch) c;
              c = set_info ''pad_diameter'' (PyFloat pad_diameter) c
          in Inr c))"

text \<open>The layer a primitive cell is drawn on.\<close>

fun cell_layer :: "cell \<Rightarrow> layer_spec option" where
  "cell_layer (Rectangle sz layer centered) = Some layer"
| "cell_layer (Octagon side_length layer) = Some layer"
| "cell_layer (Circle radius layer) = Some layer"
| "cell_layer (Extrude pts layer w) = Some layer"
| "cell_layer (Instance c) = None"

text \<open>
  A grid snap for the concrete evaluations below: the nearest even multiple of one
  nanometre, in micrometres.
\<close>

definition snap_2nm :: "real \<Rightarrow> real" where
  "snap_2nm x = fix_grid2x x 0.001"

text \<open>The default layers of \<^verbatim>\<open>bondpad\<close> and \<^verbatim>\<open>bondpad_array\<close>.\<close>

definition TopMetal2drawing :: layer_spec where
  "TopMetal2drawing = LayerName ''TopMetal2drawing''"

definition Passivpillar :: layer_spec where
  "Passivpillar = LayerName ''Passivpillar''"

definition dfpaddrawing :: layer_spec where
  "dfpaddrawing = LayerName ''dfpaddrawing''"

section \<open>The checks of the library\<close>

text \<open>
  The definitions above record every call of a library constructor with its arguments.
  gdsfactory validates some of these arguments and raises where it rejects them, and
  \<^verbatim>\<open>bondpad\<close> catches nothing, so the first such error ends the call. \<^verbatim>\<open>bondpad\<close> never
  branches on a cell the library returns: the calls it makes are the same whatever the
  library answers. Its result is therefore the first error among the recorded calls, in
  the order they are made, and the recorded component when there is none.

  A library is given by its two checks, each returning the error it raises, if any: the
  check of a constructor call (\<^verbatim>\<open>rectangle\<close>, \<^verbatim>\<open>octagon\<close>, \<^verbatim>\<open>circle\<close>) and the check of an
  \<^verbatim>\<open>add_port\<close> call.
\<close>

record library =
  cell_error :: "cell \<Rightarrow> error option"
  port_error :: "port \<Rightarrow> error option"

fun first_error :: "('a \<Rightarrow> error option) \<Rightarrow> 'a list \<Rightarrow> error option" where
  "first_error check [] = None"
| "first_error check (x # xs) =
     (case check x of
        Some e \<Rightarrow> Some e
      | None \<Rightarrow> first_error check xs)"

text \<open>
  \<^verbatim>\<open>bondpad\<close> run against a library. An unknown shape raises at line 66, before any call of
  the library. Otherwise the constructors are called in the order of the references
  (lines 43 to 87), and \<^verbatim>\<open>add_port\<close> after them (line 90).
\<close>

definition bondpad_checked ::
  "library \<Rightarrow> (real \<Rightarrow> real) \<Rightarrow> string \<Rightarrow> real \<Rightarrow> layer_spec \<Rightarrow> layer_spec \<Rightarrow> layer_spec
     \<Rightarrow> real list option \<Rightarrow> error + component" where
  "bondpad_checked L snap_to_grid2x shape diameter layer_top_metal layer_passiv layer_dfpad
       bbox_offsets =
     (case bondpad snap_to_grid2x shape diameter layer_top_metal layer_passiv layer_dfpad
             bbox_offsets of
        Inl e \<Rightarrow> Inl e
      | Inr c \<Rightarrow>
         (case first_error (cell_error L) (map fst (refs c)) of
            Some e \<Rightarrow> Inl e
          | None \<Rightarrow>
             (case first_error (port_error L) (ports c) of
                Some e \<Rightarrow> Inl e
              | None \<Rightarrow> Inr c)))"

text \<open>
  One check of gdsfactory, for the concrete evaluations below: \<^verbatim>\<open>gf.components.rectangle\<close>
  raises \<^verbatim>\<open>ValueError\<close> unless both sides of the size are positive (the message, which
  quotes the two sides, is abridged here). \<open>rectangle_checks\<close> is a library with this check
  and no other.
\<close>

fun rectangle_size_error :: "cell \<Rightarrow> error option" where
  "rectangle_size_error (Rectangle sz layer centered) =
     (if fst sz \<le> 0 \<or> snd sz \<le> 0 then Some (ValueError ''dx and dy must be > 0'') else None)"
| "rectangle_size_error (Octagon side_length layer) = None"
| "rectangle_size_error (Circle radius layer) = None"
| "rectangle_size_error (Extrude pts layer w) = None"
| "rectangle_size_error (Instance c) = None"

definition rectangle_checks :: library where
  "rectangle_checks = \<lparr>cell_error = rectangle_size_error, port_error = (\<lambda>p. None)\<rparr>"

section \<open>Properties of the quantization\<close>

lemma py_round_of_int: "py_round (of_int n) = n"
  by (simp add: py_round_def)

lemma fix_grid_quotient: "g \<noteq> 0 \<Longrightarrow> fix_grid u g / g = of_int (py_round (u / g))"
  by (simp add: fix_grid_def)

lemma fix_grid2x_quotient:
  "g \<noteq> 0 \<Longrightarrow> fix_grid2x u g / (2 * g) = of_int (py_round (u / (2 * g)))"
  by (simp add: fix_grid2x_def)

text \<open>
  C7. For every value \<open>v\<close> and grid \<open>g > 0\<close>, half of the even-multiple quantization
  \<open>round(v / (2 g)) * 2 * g\<close> is an integer multiple of \<open>g\<close>, namely \<open>round(v / (2 g)) * g\<close>:
  the radius computed from a quantized diameter is on the grid.
\<close>

theorem fix_grid2x_half_on_grid:
  "0 < g \<Longrightarrow>
     fix_grid2x v g / 2 = of_int (py_round (v / (2 * g))) * g \<and>
     (\<exists>k::int. fix_grid2x v g / 2 = of_int k * g)"
  by (simp add: fix_grid2x_def)

theorem fix_grid2x_half_on_grid_witness:
  "(0::real) < 0.01 \<and> fix_grid2x 25.35 0.01 / 2 = of_int (py_round (25.35 / (2 * 0.01))) * 0.01
     \<and> (\<exists>k::int. fix_grid2x 25.35 0.01 / 2 = of_int k * 0.01)"
  using fix_grid2x_half_on_grid [of "0.01" "25.35"] by simp

text \<open>
  C8. Quantizing a quantized value changes nothing, for the ordinary and for the
  even-multiple quantization, on every grid \<open>g > 0\<close>.
\<close>

theorem fix_grid_idempotent:
  "0 < g \<Longrightarrow>
     fix_grid (fix_grid u g) g = fix_grid u g \<and>
     fix_grid2x (fix_grid2x u g) g = fix_grid2x u g"
proof -
  assume g: "0 < g"
  then have nz: "g \<noteq> 0" by simp
  have a: "fix_grid (fix_grid u g) g = fix_grid u g"
    unfolding fix_grid_def [of "fix_grid u g"] fix_grid_quotient [OF nz] py_round_of_int
    by (simp add: fix_grid_def)
  have b: "fix_grid2x (fix_grid2x u g) g = fix_grid2x u g"
    unfolding fix_grid2x_def [of "fix_grid2x u g"] fix_grid2x_quotient [OF nz] py_round_of_int
    by (simp add: fix_grid2x_def)
  from a b show ?thesis by simp
qed

theorem fix_grid_idempotent_witness:
  "(0::real) < 0.01 \<and> fix_grid (fix_grid 2.104 0.01) 0.01 = fix_grid 2.104 0.01
     \<and> fix_grid2x (fix_grid2x 25.35 0.01) 0.01 = fix_grid2x 25.35 0.01
     \<and> fix_grid 2.104 0.01 = 2.1 \<and> fix_grid2x 25.35 0.01 = 25.36"
proof -
  have "fix_grid (fix_grid 2.104 0.01) 0.01 = fix_grid 2.104 0.01"
    using fix_grid_idempotent [of "0.01" "2.104"] by simp
  moreover have "fix_grid2x (fix_grid2x 25.35 0.01) 0.01 = fix_grid2x 25.35 0.01"
    using fix_grid_idempotent [of "0.01" "25.35"] by simp
  moreover have "fix_grid 2.104 0.01 = 2.1"
    by (simp add: fix_grid_def py_round_def)
  moreover have "fix_grid2x 25.35 0.01 = 25.36"
    by (simp add: fix_grid2x_def py_round_def)
  ultimately show ?thesis by simp
qed

section \<open>Reading a component after each operation\<close>

lemma sel_empty:
  "refs empty_component = []" "polygons empty_component = []"
  "ports empty_component = []" "info empty_component = []"
  by (simp_all add: empty_component_def)

lemma sel_add_ref:
  "refs (add_ref cl mv c) = refs c @ [(cl, mv)]" "polygons (add_ref cl mv c) = polygons c"
  "ports (add_ref cl mv c) = ports c" "info (add_ref cl mv c) = info c"
  by (simp_all add: add_ref_def)

lemma sel_add_polygon:
  "refs (add_polygon pts l c) = refs c" "polygons (add_polygon pts l c) = polygons c @ [(pts, l)]"
  "ports (add_polygon pts l c) = ports c" "info (add_polygon pts l c) = info c"
  by (simp_all add: add_polygon_def)

lemma sel_add_port:
  "refs (add_port p c) = refs c" "polygons (add_port p c) = polygons c"
  "ports (add_port p c) = ports c @ [p]" "info (add_port p c) = info c"
  by (simp_all add: add_port_def)

lemma sel_set_info:
  "refs (set_info k v c) = refs c" "polygons (set_info k v c) = polygons c"
  "ports (set_info k v c) = ports c" "info (set_info k v c) = AList.update k v (info c)"
  by (simp_all add: set_info_def)

lemma sel_fold_add_polygon:
  "refs (fold (\<lambda>layer. add_polygon pts layer) ls c) = refs c"
  "polygons (fold (\<lambda>layer. add_polygon pts layer) ls c) = polygons c @ map (\<lambda>l. (pts, l)) ls"
  "ports (fold (\<lambda>layer. add_polygon pts layer) ls c) = ports c"
  "info (fold (\<lambda>layer. add_polygon pts layer) ls c) = info c"
  by (induction ls arbitrary: c) (simp_all add: sel_add_polygon)

lemma sel_if:
  "refs (if b then x else y) = (if b then refs x else refs y)"
  "polygons (if b then x else y) = (if b then polygons x else polygons y)"
  "ports (if b then x else y) = (if b then ports x else ports y)"
  "info (if b then x else y) = (if b then info x else info y)"
  by simp_all

lemmas sel_ops = sel_empty sel_add_ref sel_add_polygon sel_add_port sel_set_info sel_fold_add_polygon sel_if

section \<open>What \<open>inductor2\<close> builds, for all arguments\<close>

lemma inductor2_ports:
  "ports (inductor2 width space diameter resistance inductance turns block_qrc) =
     [\<lparr>port_name = ''P1'', port_center = (- fix_grid space 0.01, fix_grid space 0.01),
       port_width = fix_grid space 0.01,
       port_orientation = 270, port_layer = LayerPair 134 0, port_type = None\<rparr>,
      \<lparr>port_name = ''P2'', port_center = (fix_grid space 0.01, fix_grid space 0.01),
       port_width = fix_grid space 0.01,
       port_orientation = 270, port_layer = LayerPair 134 0, port_type = None\<rparr>]"
  unfolding inductor2_def Let_def sel_ops by simp

lemma inductor2_info:
  "info (inductor2 width space diameter resistance inductance turns block_qrc) =
     [(''resistance'', PyFloat resistance), (''inductance'', PyFloat inductance),
      (''model'', PyStr ''inductor2''), (''turns'', PyInt turns), (''width'', PyFloat width),
      (''space'', PyFloat space), (''diameter'', PyFloat diameter)]"
  unfolding inductor2_def Let_def sel_ops by simp

lemma inductor2_refs:
  "refs (inductor2 width space diameter resistance inductance turns block_qrc) =
     refs (inductor2 width space diameter resistance' inductance' turns' block_qrc')"
  unfolding inductor2_def Let_def sel_ops by simp

lemma inductor2_polygons_turns:
  "polygons (inductor2 width space diameter resistance inductance turns block_qrc) =
     polygons (inductor2 width space diameter resistance' inductance' turns' block_qrc)"
  unfolding inductor2_def Let_def sel_ops by simp

lemma inductor2_coil_path_length:
  "map_option length (coil_path (inductor2 width space diameter resistance inductance turns block_qrc)) = Some 10"
  unfolding coil_path_def inductor2_def Let_def sel_ops by simp

lemma inductor2_first_point:
  "coil_first_point (inductor2 width space diameter resistance inductance turns block_qrc) =
     Some (space / 2,
           3 * (fix_grid2x diameter 0.01 / 2 + fix_grid space 0.01)
           - (fix_grid2x diameter 0.01 / 2 + fix_grid space 0.01) * cos (45 * pi / 180 / 2))"
  unfolding coil_first_point_def coil_path_def inductor2_def Let_def sel_ops by simp

lemma inductor2_last_point:
  "coil_last_point (inductor2 width space diameter resistance inductance turns block_qrc) =
     Some (- space / 2,
           3 * (fix_grid2x diameter 0.01 / 2 + fix_grid space 0.01)
           - (fix_grid2x diameter 0.01 / 2 + fix_grid space 0.01) * cos (45 * pi / 180 / 2))"
  unfolding coil_last_point_def coil_path_def inductor2_def Let_def sel_ops by simp

text \<open>Where \<^verbatim>\<open>space\<close> is on the grid already, the gap points are at half the quantized spacing.\<close>

lemma inductor2_gap_points_on_grid:
  "fix_grid space 0.01 = space \<Longrightarrow>
     map_option fst
       (coil_first_point (inductor2 width space diameter resistance inductance turns block_qrc)) =
       Some (fix_grid space 0.01 / 2)
     \<and> map_option fst
       (coil_last_point (inductor2 width space diameter resistance inductance turns block_qrc)) =
       Some (- fix_grid space 0.01 / 2)"
  unfolding inductor2_first_point inductor2_last_point by simp

lemma inductor2_polygons:
  "map snd (polygons (inductor2 width space diameter resistance inductance turns block_qrc)) =
     [LayerPair 27 0, LayerPair 1 23, LayerPair 5 23, LayerPair 8 23, LayerPair 10 23,
      LayerPair 30 23, LayerPair 50 23, LayerPair 67 23, LayerPair 126 23, LayerPair 134 23]
     @ (if block_qrc then [LayerPair 148 0] else []) @ [LayerPair 46 21]"
  unfolding inductor2_def Let_def sel_ops by simp

lemma inductor2_polygons_shared:
  "map fst (polygons (inductor2 width space diameter resistance inductance turns block_qrc)) =
     replicate (if block_qrc then 12 else 11)
       (fst (hd (polygons (inductor2 width space diameter resistance inductance turns block_qrc))))"
  unfolding inductor2_def Let_def sel_ops by (simp add: numeral_eq_Suc)

lemma inductor2_outer_length:
  "length (fst (hd (polygons (inductor2 width space diameter resistance inductance turns block_qrc)))) = 8"
  unfolding inductor2_def Let_def sel_ops by simp


section \<open>The inductor claims\<close>

text \<open>
  C1. The claim has \<^verbatim>\<open>inductor3\<close> return what \<^verbatim>\<open>inductor2\<close> builds for the same arguments.
  The code passes \<^verbatim>\<open>substrate_etch\<close> on to \<^verbatim>\<open>inductor2\<close>, which has no such parameter: for
  every argument tuple the call raises \<^verbatim>\<open>TypeError\<close> and no component is returned.
\<close>

theorem inductor3_always_raises:
  "inductor3 width space diameter resistance inductance turns block_qrc substrate_etch =
     Inl (TypeError ''substrate_etch'')"
  by (simp add: inductor3_def inductor2_call_def)

text \<open>
  C2. \<^verbatim>\<open>inductor2(width=2.0, space=2.1, diameter=25.35)\<close>, the other arguments at their
  defaults: the coil path has 10 points; the ports are \<open>P1\<close> at \<open>(-2.1, 2.1)\<close> and \<open>P2\<close> at
  \<open>(2.1, 2.1)\<close>, both of orientation 270, and no others; there are 12 boundary polygons,
  on the coil identification layer, the nine no-fill layers, the RC blocking layer and the
  well block layer, all with the same list of 8 vertices.
\<close>

theorem inductor2_concrete_scenario:
  "map_option length (coil_path (inductor2 2.0 2.1 25.35 0.5777 (33.303 / 10 ^ 12) 1 True)) = Some 10
   \<and> ports (inductor2 2.0 2.1 25.35 0.5777 (33.303 / 10 ^ 12) 1 True) =
       [\<lparr>port_name = ''P1'', port_center = (- 2.1, 2.1), port_width = 2.1,
         port_orientation = 270, port_layer = LayerPair 134 0, port_type = None\<rparr>,
        \<lparr>port_name = ''P2'', port_center = (2.1, 2.1), port_width = 2.1,
         port_orientation = 270, port_layer = LayerPair 134 0, port_type = None\<rparr>]
   \<and> length (polygons (inductor2 2.0 2.1 25.35 0.5777 (33.303 / 10 ^ 12) 1 True)) = 12
   \<and> map snd (polygons (inductor2 2.0 2.1 25.35 0.5777 (33.303 / 10 ^ 12) 1 True)) =
       [LayerPair 27 0, LayerPair 1 23, LayerPair 5 23, LayerPair 8 23, LayerPair 10 23,
        LayerPair 30 23, LayerPair 50 23, LayerPair 67 23, LayerPair 126 23, LayerPair 134 23,
        LayerPair 148 0, LayerPair 46 21]
   \<and> map fst (polygons (inductor2 2.0 2.1 25.35 0.5777 (33.303 / 10 ^ 12) 1 True)) =
       replicate 12 (fst (hd (polygons (inductor2 2.0 2.1 25.35 0.5777 (33.303 / 10 ^ 12) 1 True))))
   \<and> length (fst (hd (polygons (inductor2 2.0 2.1 25.35 0.5777 (33.303 / 10 ^ 12) 1 True)))) = 8"
proof -
  let ?c = "inductor2 2.0 2.1 25.35 0.5777 (33.303 / 10 ^ 12) 1 True"
  have s: "fix_grid 2.1 0.01 = 2.1"
    by (simp add: fix_grid_def py_round_def)
  have a: "map_option length (coil_path ?c) = Some 10"
    by (rule inductor2_coil_path_length)
  have b: "ports ?c =
       [\<lparr>port_name = ''P1'', port_center = (- 2.1, 2.1), port_width = 2.1,
         port_orientation = 270, port_layer = LayerPair 134 0, port_type = None\<rparr>,
        \<lparr>port_name = ''P2'', port_center = (2.1, 2.1), port_width = 2.1,
         port_orientation = 270, port_layer = LayerPair 134 0, port_type = None\<rparr>]"
    unfolding inductor2_ports s by simp
  have c: "map snd (polygons ?c) =
       [LayerPair 27 0, LayerPair 1 23, LayerPair 5 23, LayerPair 8 23, LayerPair 10 23,
        LayerPair 30 23, LayerPair 50 23, LayerPair 67 23, LayerPair 126 23, LayerPair 134 23,
        LayerPair 148 0, LayerPair 46 21]"
    unfolding inductor2_polygons by simp
  have "length (map snd (polygons ?c)) = 12"
    unfolding c by simp
  then have d: "length (polygons ?c) = 12" by simp
  have e: "map fst (polygons ?c) = replicate 12 (fst (hd (polygons ?c)))"
    using inductor2_polygons_shared [of "2.0" "2.1" "25.35" "0.5777" "33.303 / 10 ^ 12" 1 True]
    by simp
  have f: "length (fst (hd (polygons ?c))) = 8"
    by (rule inductor2_outer_length)
  from a b c d e f show ?thesis by blast
qed

text \<open>
  C3. The claim puts the first and last point of the coil path at \<open>x = s / 2\<close> and
  \<open>x = - s / 2\<close> for the quantized spacing \<open>s\<close>. The code computes them from the raw
  \<^verbatim>\<open>space\<close> (lemmas \<open>inductor2_first_point\<close>, \<open>inductor2_last_point\<close>): with
  \<^verbatim>\<open>space = 2.104\<close> they lie at \<open>x = 1.052\<close> and \<open>x = - 1.052\<close>, while \<open>s / 2 = 1.05\<close>. The
  \<open>y\<close> coordinate is the claimed one, with \<open>r = 25.36 / 2 + 2.1 = 14.78\<close>.
\<close>

theorem inductor2_gap_points_use_raw_space:
  "coil_first_point (inductor2 2.0 2.104 25.35 0.5777 (33.303 / 10 ^ 12) 1 True) =
     Some (1.052, 3 * 14.78 - 14.78 * cos (45 * pi / 180 / 2))
   \<and> coil_last_point (inductor2 2.0 2.104 25.35 0.5777 (33.303 / 10 ^ 12) 1 True) =
     Some (- 1.052, 3 * 14.78 - 14.78 * cos (45 * pi / 180 / 2))
   \<and> fix_grid 2.104 0.01 / 2 = 1.05"
proof -
  have s: "fix_grid 2.104 0.01 = 2.1"
    by (simp add: fix_grid_def py_round_def)
  have d: "fix_grid2x 25.35 0.01 = 25.36"
    by (simp add: fix_grid2x_def py_round_def)
  show ?thesis
    unfolding inductor2_first_point inductor2_last_point s d by simp
qed

text \<open>
  C4. Two calls of \<^verbatim>\<open>inductor2\<close> that differ in \<^verbatim>\<open>turns\<close> only build the same references
  (coil path, port stubs, pins), the same boundary polygons and the same ports; their
  metadata differ in the value stored under \<open>turns\<close> only.
\<close>

theorem inductor2_turns_metadata_only:
  "refs (inductor2 width space diameter resistance inductance t1 block_qrc) =
     refs (inductor2 width space diameter resistance inductance t2 block_qrc)
   \<and> polygons (inductor2 width space diameter resistance inductance t1 block_qrc) =
     polygons (inductor2 width space diameter resistance inductance t2 block_qrc)
   \<and> ports (inductor2 width space diameter resistance inductance t1 block_qrc) =
     ports (inductor2 width space diameter resistance inductance t2 block_qrc)
   \<and> info (inductor2 width space diameter resistance inductance t1 block_qrc) =
     AList.update ''turns'' (PyInt t1)
       (info (inductor2 width space diameter resistance inductance t2 block_qrc))
   \<and> map_of (info (inductor2 width space diameter resistance inductance t1 block_qrc)) ''turns''
       = Some (PyInt t1)"
proof -
  have a: "refs (inductor2 width space diameter resistance inductance t1 block_qrc) =
     refs (inductor2 width space diameter resistance inductance t2 block_qrc)"
    by (rule inductor2_refs)
  have b: "polygons (inductor2 width space diameter resistance inductance t1 block_qrc) =
     polygons (inductor2 width space diameter resistance inductance t2 block_qrc)"
    by (rule inductor2_polygons_turns)
  have c: "ports (inductor2 width space diameter resistance inductance t1 block_qrc) =
     ports (inductor2 width space diameter resistance inductance t2 block_qrc)"
    unfolding inductor2_ports by simp
  have d: "info (inductor2 width space diameter resistance inductance t1 block_qrc) =
     AList.update ''turns'' (PyInt t1)
       (info (inductor2 width space diameter resistance inductance t2 block_qrc))"
    unfolding inductor2_info by simp
  have e: "map_of (info (inductor2 width space diameter resistance inductance t1 block_qrc)) ''turns''
       = Some (PyInt t1)"
    unfolding inductor2_info by simp
  from a b c d e show ?thesis by blast
qed

section \<open>Formatting of integers\<close>

lemma digit_char_inj: "n < 10 \<Longrightarrow> m < 10 \<Longrightarrow> digit_char n = digit_char m \<Longrightarrow> n = m"
proof -
  assume n: "n < 10" and m: "m < 10" and e: "digit_char n = digit_char m"
  have d: "distinct ''0123456789''" by simp
  have l: "length ''0123456789'' = 10" by simp
  from e have "''0123456789'' ! n = ''0123456789'' ! m" by (simp only: digit_char_def)
  with d n m l show "n = m" by (simp only: nth_eq_iff_index_eq)
qed

lemma str_nat_nonempty: "str_nat n \<noteq> []"
  by (subst str_nat.simps) simp

lemma str_nat_inj: "str_nat n = str_nat m \<Longrightarrow> n = m"
proof (induction n arbitrary: m rule: str_nat.induct)
  case (1 n)
  show ?case
  proof (cases "n < 10")
    case True
    then have sn: "str_nat n = [digit_char n]" by (subst str_nat.simps) simp
    show ?thesis
    proof (cases "m < 10")
      case mlt: True
      then have "str_nat m = [digit_char m]" by (subst str_nat.simps) simp
      with sn "1.prems" have "digit_char n = digit_char m" by simp
      with True mlt show ?thesis by (rule digit_char_inj)
    next
      case False
      then have "str_nat m = str_nat (m div 10) @ [digit_char (m mod 10)]"
        by (subst str_nat.simps) simp
      with sn "1.prems" have "str_nat (m div 10) = []" by simp
      with str_nat_nonempty show ?thesis by blast
    qed
  next
    case False
    then have sn: "str_nat n = str_nat (n div 10) @ [digit_char (n mod 10)]"
      by (subst str_nat.simps) simp
    show ?thesis
    proof (cases "m < 10")
      case True
      then have "str_nat m = [digit_char m]" by (subst str_nat.simps) simp
      with sn "1.prems" have "str_nat (n div 10) = []" by simp
      with str_nat_nonempty show ?thesis by blast
    next
      case mge: False
      then have "str_nat m = str_nat (m div 10) @ [digit_char (m mod 10)]"
        by (subst str_nat.simps) simp
      with sn "1.prems" have a: "str_nat (n div 10) = str_nat (m div 10)"
        and b: "digit_char (n mod 10) = digit_char (m mod 10)" by simp_all
      from "1.IH" [OF False a] have q: "n div 10 = m div 10" .
      have "n mod 10 < 10" "m mod 10 < 10" by simp_all
      then have r: "n mod 10 = m mod 10" using b by (rule digit_char_inj)
      have "n = 10 * (n div 10) + n mod 10" by simp
      also have "\<dots> = 10 * (m div 10) + m mod 10" by (simp only: q r)
      also have "\<dots> = m" by simp
      finally show ?thesis .
    qed
  qed
qed

lemma pad_names_distinct: "distinct (map (\<lambda>i. ''pad_'' @ str_int (i + 1)) [0..k])"
proof -
  have "inj_on (\<lambda>i. ''pad_'' @ str_int (i + 1)) (set [0..k])"
  proof (rule inj_onI)
    fix i j
    assume i: "i \<in> set [0..k]" and j: "j \<in> set [0..k]"
      and e: "''pad_'' @ str_int (i + 1) = ''pad_'' @ str_int (j + 1)"
    from i j have nn: "0 \<le> i" "0 \<le> j" by simp_all
    from e have "str_int (i + 1) = str_int (j + 1)" by simp
    with nn have "str_nat (nat (i + 1)) = str_nat (nat (j + 1))" by (simp add: str_int_def)
    then have "nat (i + 1) = nat (j + 1)" by (rule str_nat_inj)
    with nn show "i = j" by simp
  qed
  then show ?thesis by (simp add: distinct_map)
qed

section \<open>What \<open>bondpad\<close> and the loop of \<open>bondpad_array\<close> build\<close>

lemma sel_add_opening:
  "refs (add_opening snap shape d lo c) =
     refs c @ (case opening_cell snap shape d (fst lo) (snd lo) of
                 Some cl \<Rightarrow> [(cl, (0, 0))] | None \<Rightarrow> [])"
  "polygons (add_opening snap shape d lo c) = polygons c"
  "ports (add_opening snap shape d lo c) = ports c"
  "info (add_opening snap shape d lo c) = info c"
  by (simp_all add: add_opening_def sel_add_ref split: option.splits)

lemma sel_fold_add_opening:
  "map (\<lambda>r. Some (fst r)) (refs (fold (add_opening snap shape d) los c)) =
     map (\<lambda>r. Some (fst r)) (refs c) @
     filter (\<lambda>x. x \<noteq> None) (map (\<lambda>lo. opening_cell snap shape d (fst lo) (snd lo)) los)"
  "map snd (refs (fold (add_opening snap shape d) los c)) =
     map snd (refs c) @
     map (\<lambda>x. (0, 0)) (filter (\<lambda>x. x \<noteq> None) (map (\<lambda>lo. opening_cell snap shape d (fst lo) (snd lo)) los))"
  "polygons (fold (add_opening snap shape d) los c) = polygons c"
  "ports (fold (add_opening snap shape d) los c) = ports c"
  "info (fold (add_opening snap shape d) los c) = info c"
  by (induction los arbitrary: c) (simp_all add: sel_add_opening split: option.splits)

lemma opening_cell_valid:
  "shape \<in> {''octagon'', ''square'', ''circle''} \<Longrightarrow>
     opening_cell snap shape d layer offset \<noteq> None \<and>
     map_option cell_layer (opening_cell snap shape d layer offset) = Some (Some layer)"
  by (auto simp add: opening_cell_def Let_def)

lemma filter_openings:
  "shape \<in> {''octagon'', ''square'', ''circle''} \<Longrightarrow>
     filter (\<lambda>x. x \<noteq> None) (map (\<lambda>lo. opening_cell snap shape d (fst lo) (snd lo)) los) =
     map (\<lambda>lo. opening_cell snap shape d (fst lo) (snd lo)) los"
  by (induction los) (simp_all add: opening_cell_valid)

lemma bondpad_unknown_shape:
  "shape \<notin> {''octagon'', ''square'', ''circle''} \<Longrightarrow>
     bondpad snap shape diameter layer_top_metal layer_passiv layer_dfpad bbox_offsets =
       Inl (ValueError (''Unknown shape: '' @ shape))"
  by (simp add: bondpad_def)

lemma bondpad_valid:
  assumes "shape \<in> {''octagon'', ''square'', ''circle''}"
  shows "\<exists>c base. bondpad snap shape diameter layer_top_metal layer_passiv layer_dfpad bbox_offsets = Inr c
           \<and> cell_layer base = Some layer_top_metal
           \<and> map (\<lambda>r. Some (fst r)) (refs c) =
               Some base # map (\<lambda>lo. opening_cell snap shape diameter (fst lo) (snd lo))
                             (zip [layer_passiv, layer_dfpad] (or_empty bbox_offsets))
           \<and> map snd (refs c) =
               (0, 0) # map (\<lambda>lo. (0, 0)) (zip [layer_passiv, layer_dfpad] (or_empty bbox_offsets))
           \<and> polygons c = []
           \<and> ports c = [\<lparr>port_name = ''pad'', port_center = (0, 0), port_width = diameter,
                          port_orientation = 0, port_layer = layer_top_metal,
                          port_type = Some ''electrical''\<rparr>]
           \<and> info c = [(''shape'', PyStr shape), (''diameter'', PyFloat diameter),
                       (''top_metal'', PyLayer layer_top_metal)]"
proof -
  let ?los = "zip [layer_passiv, layer_dfpad] (or_empty bbox_offsets)"
  let ?fin = "\<lambda>c. set_info ''top_metal'' (PyLayer layer_top_metal)
                   (set_info ''diameter'' (PyFloat diameter)
                     (set_info ''shape'' (PyStr shape)
                       (add_port \<lparr>port_name = ''pad'', port_center = (0, 0), port_width = diameter,
                          port_orientation = 0, port_layer = layer_top_metal,
                          port_type = Some ''electrical''\<rparr>
                         (fold (add_opening snap shape diameter) ?los c))))"
  have "\<exists>base. cell_layer base = Some layer_top_metal \<and>
          bondpad snap shape diameter layer_top_metal layer_passiv layer_dfpad bbox_offsets =
            Inr (?fin (add_ref base (0, 0) empty_component))"
  proof -
    from assms consider "shape = ''square''" | "shape = ''octagon''" | "shape = ''circle''"
      by auto
    then show ?thesis
    proof cases
      case 1
      then have "cell_layer (Rectangle (diameter, diameter) layer_top_metal True) = Some layer_top_metal \<and>
          bondpad snap shape diameter layer_top_metal layer_passiv layer_dfpad bbox_offsets =
            Inr (?fin (add_ref (Rectangle (diameter, diameter) layer_top_metal True) (0, 0) empty_component))"
        by (simp add: bondpad_def Let_def)
      then show ?thesis by blast
    next
      case 2
      then have "cell_layer (Octagon (snap (diameter / (1 + sqrt 2))) layer_top_metal) = Some layer_top_metal \<and>
          bondpad snap shape diameter layer_top_metal layer_passiv layer_dfpad bbox_offsets =
            Inr (?fin (add_ref (Octagon (snap (diameter / (1 + sqrt 2))) layer_top_metal) (0, 0) empty_component))"
        by (simp add: bondpad_def Let_def)
      then show ?thesis by blast
    next
      case 3
      then have "cell_layer (Circle (diameter / 2) layer_top_metal) = Some layer_top_metal \<and>
          bondpad snap shape diameter layer_top_metal layer_passiv layer_dfpad bbox_offsets =
            Inr (?fin (add_ref (Circle (diameter / 2) layer_top_metal) (0, 0) empty_component))"
        by (simp add: bondpad_def Let_def)
      then show ?thesis by blast
    qed
  qed
  then obtain base where bl: "cell_layer base = Some layer_top_metal"
    and bp: "bondpad snap shape diameter layer_top_metal layer_passiv layer_dfpad bbox_offsets =
            Inr (?fin (add_ref base (0, 0) empty_component))" by blast
  let ?c = "?fin (add_ref base (0, 0) empty_component)"
  have r1: "map (\<lambda>r. Some (fst r)) (refs ?c) =
               Some base # map (\<lambda>lo. opening_cell snap shape diameter (fst lo) (snd lo)) ?los"
    unfolding sel_set_info sel_add_port sel_fold_add_opening filter_openings [OF assms]
    by (simp add: sel_add_ref sel_empty)
  have r2: "map snd (refs ?c) = (0, 0) # map (\<lambda>lo. (0, 0)) ?los"
    unfolding sel_set_info sel_add_port sel_fold_add_opening filter_openings [OF assms]
    by (simp add: sel_add_ref sel_empty)
  have r3: "polygons ?c = []"
    unfolding sel_set_info sel_add_port sel_fold_add_opening
    by (simp add: sel_add_ref sel_empty)
  have r4: "ports ?c = [\<lparr>port_name = ''pad'', port_center = (0, 0), port_width = diameter,
                          port_orientation = 0, port_layer = layer_top_metal,
                          port_type = Some ''electrical''\<rparr>]"
    unfolding sel_set_info sel_add_port sel_fold_add_opening
    by (simp add: sel_add_ref sel_empty)
  have r5: "info ?c = [(''shape'', PyStr shape), (''diameter'', PyFloat diameter),
                       (''top_metal'', PyLayer layer_top_metal)]"
    unfolding sel_set_info sel_add_port sel_fold_add_opening
    by (simp add: sel_add_ref sel_empty)
  show ?thesis
    apply (rule exI [of _ ?c])
    apply (rule exI [of _ base])
    apply (intro conjI)
          apply (rule bp)
         apply (rule bl)
        apply (rule r1)
       apply (rule r2)
      apply (rule r3)
     apply (rule r4)
    apply (rule r5)
    done
qed

lemma get_port_single: "ports c = [p] \<Longrightarrow> port_name p = n \<Longrightarrow> get_port c n = Inr p"
  by (simp add: get_port_def)

lemma bondpad_array_loop_valid:
  assumes "bondpad snap shape pad_diameter layer_top_metal layer_passiv layer_dfpad bbox_offsets = Inr pad"
    and "get_port pad ''pad'' = Inr p"
  shows "\<exists>c'. bondpad_array_loop snap pad_pitch pad_diameter shape layer_top_metal layer_passiv
                 layer_dfpad bbox_offsets idx c = Inr c'
           \<and> refs c' = refs c @ map (\<lambda>i. (Instance pad, (of_int i * pad_pitch, 0))) idx
           \<and> polygons c' = polygons c
           \<and> ports c' = ports c @
                map (\<lambda>i. \<lparr>port_name = ''pad_'' @ str_int (i + 1),
                           port_center = (of_int i * pad_pitch, 0),
                           port_width = pad_diameter, port_orientation = 0,
                           port_layer = port_layer p,
                           port_type = Some ''electrical''\<rparr>) idx
           \<and> info c' = info c"
proof (induction idx arbitrary: c)
  case Nil
  show ?case by simp
next
  case (Cons i rest)
  let ?c1 = "add_port \<lparr>port_name = ''pad_'' @ str_int (i + 1),
                           port_center = (of_int i * pad_pitch, 0),
                           port_width = pad_diameter, port_orientation = 0,
                           port_layer = port_layer p,
                           port_type = Some ''electrical''\<rparr>
               (add_ref (Instance pad) (of_int i * pad_pitch, 0) c)"
  have step: "bondpad_array_loop snap pad_pitch pad_diameter shape layer_top_metal layer_passiv
                 layer_dfpad bbox_offsets (i # rest) c =
              bondpad_array_loop snap pad_pitch pad_diameter shape layer_top_metal layer_passiv
                 layer_dfpad bbox_offsets rest ?c1"
    by (simp add: assms Let_def)
  from Cons.IH [of ?c1] show ?case
    unfolding step by (simp add: sel_add_port sel_add_ref)
qed

lemma bondpad_array_loop_unknown:
  "shape \<notin> {''octagon'', ''square'', ''circle''} \<Longrightarrow>
     bondpad_array_loop snap pad_pitch pad_diameter shape layer_top_metal layer_passiv
        layer_dfpad bbox_offsets (i # rest) c = Inl (ValueError (''Unknown shape: '' @ shape))"
  by (simp add: bondpad_unknown_shape)

section \<open>The bondpad claims\<close>

lemma upto_from_0: "1 \<le> n \<Longrightarrow> [0..n - 1] = 0 # [1..n - 1]"
  by (simp add: upto_rec1)

text \<open>
  C5, as amended. For a shape outside \<open>octagon\<close>, \<open>square\<close>, \<open>circle\<close>, \<^verbatim>\<open>bondpad\<close> raises
  \<^verbatim>\<open>ValueError\<close> with the message \<open>Unknown shape: \<close> followed by the shape, and returns no
  component. \<^verbatim>\<open>bondpad_array\<close> raises the same error whenever \<open>n_pads\<close> is at least 1; for
  \<open>n_pads \<le> 0\<close> it raises nothing and returns the component without references, polygons
  and ports that carries the three metadata entries.
\<close>

theorem bondpad_unknown_shape_raises:
  "shape \<notin> {''octagon'', ''square'', ''circle''} \<Longrightarrow>
     bondpad snap shape diameter layer_top_metal layer_passiv layer_dfpad bbox_offsets =
       Inl (ValueError (''Unknown shape: '' @ shape))
     \<and> (1 \<le> n_pads \<longrightarrow>
          bondpad_array snap n_pads pad_pitch diameter shape layer_top_metal layer_passiv
            layer_dfpad bbox_offsets = Inl (ValueError (''Unknown shape: '' @ shape)))
     \<and> (n_pads \<le> 0 \<longrightarrow>
          bondpad_array snap n_pads pad_pitch diameter shape layer_top_metal layer_passiv
            layer_dfpad bbox_offsets =
          Inr (Component [] [] []
                [(''n_pads'', PyInt n_pads), (''pad_pitch'', PyFloat pad_pitch),
                 (''pad_diameter'', PyFloat diameter)]))"
proof -
  assume u: "shape \<notin> {''octagon'', ''square'', ''circle''}"
  have a: "bondpad snap shape diameter layer_top_metal layer_passiv layer_dfpad bbox_offsets =
       Inl (ValueError (''Unknown shape: '' @ shape))"
    using u by (rule bondpad_unknown_shape)
  have b: "bondpad_array snap n_pads pad_pitch diameter shape layer_top_metal layer_passiv
            layer_dfpad bbox_offsets = Inl (ValueError (''Unknown shape: '' @ shape))"
    if n: "1 \<le> n_pads"
    unfolding bondpad_array_def upto_from_0 [OF n] bondpad_array_loop_unknown [OF u]
    by simp
  have c: "bondpad_array snap n_pads pad_pitch diameter shape layer_top_metal layer_passiv
            layer_dfpad bbox_offsets =
          Inr (Component [] [] []
                [(''n_pads'', PyInt n_pads), (''pad_pitch'', PyFloat pad_pitch),
                 (''pad_diameter'', PyFloat diameter)])"
    if n: "n_pads \<le> 0"
    using n by (simp add: bondpad_array_def Let_def set_info_def empty_component_def)
  from a b c show ?thesis by blast
qed

theorem bondpad_unknown_shape_raises_witness:
  "''triangle'' \<notin> {''octagon'', ''square'', ''circle''} \<and> (1::int) \<le> 4 \<and> (0::int) \<le> 0
   \<and> bondpad snap_2nm ''triangle'' 80 TopMetal2drawing Passivpillar dfpaddrawing (Some [-2.1, 0]) =
       Inl (ValueError ''Unknown shape: triangle'')
   \<and> bondpad_array snap_2nm 4 100 80 ''triangle'' TopMetal2drawing Passivpillar dfpaddrawing
        (Some [-2.1, 0]) = Inl (ValueError ''Unknown shape: triangle'')
   \<and> bondpad_array snap_2nm 0 100 80 ''triangle'' TopMetal2drawing Passivpillar dfpaddrawing
        (Some [-2.1, 0]) =
       Inr (Component [] [] []
             [(''n_pads'', PyInt 0), (''pad_pitch'', PyFloat 100), (''pad_diameter'', PyFloat 80)])"
proof -
  have h: "''triangle'' \<notin> {''octagon'', ''square'', ''circle''}" by simp
  show ?thesis
    using h
      bondpad_unknown_shape_raises [OF h, of snap_2nm 80 TopMetal2drawing Passivpillar
        dfpaddrawing "Some [-2.1, 0]" 4 100]
      bondpad_unknown_shape_raises [OF h, of snap_2nm 80 TopMetal2drawing Passivpillar
        dfpaddrawing "Some [-2.1, 0]" 0 100]
    by simp
qed

text \<open>
  C5 as stated has \<^verbatim>\<open>bondpad_array\<close> fail for every \<open>n_pads\<close>. With \<open>n_pads = 0\<close> the loop
  body never runs, \<^verbatim>\<open>bondpad\<close> is not called, and the array of shape \<open>triangle\<close> is returned
  empty, with its metadata and without an error.
\<close>

theorem bondpad_array_no_pads_counterexample:
  "bondpad_array snap_2nm 0 100 80 ''triangle'' TopMetal2drawing Passivpillar dfpaddrawing
     (Some [-2.1, 0]) =
     Inr (Component [] [] [] [(''n_pads'', PyInt 0), (''pad_pitch'', PyFloat 100),
                              (''pad_diameter'', PyFloat 80)])
   \<and> bondpad snap_2nm ''triangle'' 80 TopMetal2drawing Passivpillar dfpaddrawing (Some [-2.1, 0]) =
       Inl (ValueError ''Unknown shape: triangle'')"
  by (simp add: bondpad_array_def bondpad_def Let_def set_info_def empty_component_def)

text \<open>
  C6. For a recognized shape and every \<open>k \<ge> 0\<close>, \<^verbatim>\<open>bondpad_array(n_pads=k)\<close> returns a
  component with exactly \<open>k\<close> ports; the port of index \<open>i\<close> (from 0) is named \<open>pad_\<close> followed
  by \<open>i + 1\<close>, is centred at \<open>(i * pad_pitch, 0)\<close>, has width \<open>pad_diameter\<close> and the layer of
  the port \<open>pad\<close> of the instanced pad, which is the top metal layer. The names are distinct.
\<close>

theorem bondpad_array_ports:
  "shape \<in> {''octagon'', ''square'', ''circle''} \<Longrightarrow> 0 \<le> k \<Longrightarrow>
   \<exists>c pad p.
     bondpad_array snap k pad_pitch pad_diameter shape layer_top_metal layer_passiv layer_dfpad
        bbox_offsets = Inr c
     \<and> bondpad snap shape pad_diameter layer_top_metal layer_passiv layer_dfpad bbox_offsets = Inr pad
     \<and> get_port pad ''pad'' = Inr p
     \<and> port_layer p = layer_top_metal
     \<and> length (ports c) = nat k
     \<and> ports c =
         map (\<lambda>i. \<lparr>port_name = ''pad_'' @ str_int (i + 1),
                    port_center = (of_int i * pad_pitch, 0),
                    port_width = pad_diameter, port_orientation = 0,
                    port_layer = port_layer p,
                    port_type = Some ''electrical''\<rparr>) [0..k - 1]
     \<and> distinct (map port_name (ports c))"
proof -
  assume v: "shape \<in> {''octagon'', ''square'', ''circle''}" and k: "0 \<le> k"
  let ?p = "\<lparr>port_name = ''pad'', port_center = (0, 0), port_width = pad_diameter,
              port_orientation = 0, port_layer = layer_top_metal,
              port_type = Some ''electrical''\<rparr>"
  from bondpad_valid [OF v, of snap pad_diameter layer_top_metal layer_passiv layer_dfpad bbox_offsets]
  obtain pad where pad: "bondpad snap shape pad_diameter layer_top_metal layer_passiv layer_dfpad
        bbox_offsets = Inr pad" and pp: "ports pad = [?p]"
    by blast
  have gp: "get_port pad ''pad'' = Inr ?p"
    using pp by (rule get_port_single) simp
  let ?f = "\<lambda>i. \<lparr>port_name = ''pad_'' @ str_int (i + 1),
                    port_center = (of_int i * pad_pitch, 0),
                    port_width = pad_diameter, port_orientation = 0,
                    port_layer = port_layer ?p,
                    port_type = Some ''electrical''\<rparr>"
  from bondpad_array_loop_valid [OF pad gp, of pad_pitch "[0..k - 1]" empty_component]
  obtain c' where loop: "bondpad_array_loop snap pad_pitch pad_diameter shape layer_top_metal
        layer_passiv layer_dfpad bbox_offsets [0..k - 1] empty_component = Inr c'"
    and pc': "ports c' = ports empty_component @ map ?f [0..k - 1]"
    by blast
  let ?c = "set_info ''pad_diameter'' (PyFloat pad_diameter)
             (set_info ''pad_pitch'' (PyFloat pad_pitch) (set_info ''n_pads'' (PyInt k) c'))"
  have arr: "bondpad_array snap k pad_pitch pad_diameter shape layer_top_metal layer_passiv
        layer_dfpad bbox_offsets = Inr ?c"
    by (simp add: bondpad_array_def loop Let_def)
  have pc: "ports ?c = map ?f [0..k - 1]"
    by (simp add: sel_set_info pc' sel_empty)
  have len: "length (ports ?c) = nat k"
    unfolding pc by simp
  have "map port_name (map ?f [0..k - 1]) = map (\<lambda>i. ''pad_'' @ str_int (i + 1)) [0..k - 1]"
    by simp
  then have dis: "distinct (map port_name (ports ?c))"
    unfolding pc by (simp only: pad_names_distinct)
  have lay: "port_layer ?p = layer_top_metal" by simp
  show ?thesis
    apply (rule exI [of _ ?c])
    apply (rule exI [of _ pad])
    apply (rule exI [of _ ?p])
    apply (intro conjI)
          apply (rule arr)
         apply (rule pad)
        apply (rule gp)
       apply (rule lay)
      apply (rule len)
     apply (rule pc)
    apply (rule dis)
    done
qed

theorem bondpad_array_ports_witness:
  "''octagon'' \<in> {''octagon'', ''square'', ''circle''} \<and> (0::int) \<le> 2
   \<and> (\<exists>c. bondpad_array snap_2nm 2 100 80 ''octagon'' TopMetal2drawing Passivpillar dfpaddrawing
            (Some [-2.1, 0]) = Inr c
          \<and> ports c =
              [\<lparr>port_name = ''pad_1'', port_center = (0, 0), port_width = 80,
                port_orientation = 0, port_layer = TopMetal2drawing,
                port_type = Some ''electrical''\<rparr>,
               \<lparr>port_name = ''pad_2'', port_center = (100, 0), port_width = 80,
                port_orientation = 0, port_layer = TopMetal2drawing,
                port_type = Some ''electrical''\<rparr>])"
proof -
  have h: "''octagon'' \<in> {''octagon'', ''square'', ''circle''}" by simp
  have k: "(0::int) \<le> 2" by simp
  have "\<exists>c pad p.
     bondpad_array snap_2nm 2 100 80 ''octagon'' TopMetal2drawing Passivpillar dfpaddrawing
        (Some [-2.1, 0]) = Inr c
     \<and> bondpad snap_2nm ''octagon'' 80 TopMetal2drawing Passivpillar dfpaddrawing
        (Some [-2.1, 0]) = Inr pad
     \<and> get_port pad ''pad'' = Inr p
     \<and> port_layer p = TopMetal2drawing
     \<and> length (ports c) = nat 2
     \<and> ports c =
         map (\<lambda>i. \<lparr>port_name = ''pad_'' @ str_int (i + 1),
                    port_center = (of_int i * 100, 0),
                    port_width = 80, port_orientation = 0,
                    port_layer = port_layer p,
                    port_type = Some ''electrical''\<rparr>) [0..2 - 1]
     \<and> distinct (map port_name (ports c))"
    by (rule bondpad_array_ports [OF h k])
  then obtain c and p :: port where c: "bondpad_array snap_2nm 2 100 80 ''octagon'' TopMetal2drawing
        Passivpillar dfpaddrawing (Some [-2.1, 0]) = Inr c"
    and l: "port_layer p = TopMetal2drawing"
    and pc: "ports c =
         map (\<lambda>i. \<lparr>port_name = ''pad_'' @ str_int (i + 1),
                    port_center = (of_int i * 100, 0),
                    port_width = 80, port_orientation = 0,
                    port_layer = port_layer p,
                    port_type = Some ''electrical''\<rparr>) [0..2 - 1]"
    by blast
  have "ports c =
              [\<lparr>port_name = ''pad_1'', port_center = (0, 0), port_width = 80,
                port_orientation = 0, port_layer = TopMetal2drawing,
                port_type = Some ''electrical''\<rparr>,
               \<lparr>port_name = ''pad_2'', port_center = (100, 0), port_width = 80,
                port_orientation = 0, port_layer = TopMetal2drawing,
                port_type = Some ''electrical''\<rparr>]"
    unfolding pc l by (simp add: upto_rec1 str_int_def str_nat.simps digit_char_def)
  with c have "\<exists>c. bondpad_array snap_2nm 2 100 80 ''octagon'' TopMetal2drawing Passivpillar
            dfpaddrawing (Some [-2.1, 0]) = Inr c
          \<and> ports c =
              [\<lparr>port_name = ''pad_1'', port_center = (0, 0), port_width = 80,
                port_orientation = 0, port_layer = TopMetal2drawing,
                port_type = Some ''electrical''\<rparr>,
               \<lparr>port_name = ''pad_2'', port_center = (100, 0), port_width = 80,
                port_orientation = 0, port_layer = TopMetal2drawing,
                port_type = Some ''electrical''\<rparr>]"
    by (intro exI [of _ c] conjI)
  with h k show ?thesis by (intro conjI)
qed

lemma or_empty_Some: "or_empty (Some offs) = offs"
  by (simp add: or_empty_def)

lemma or_empty_None: "or_empty None = []"
  by (simp add: or_empty_def)

lemma bondpad_None_eq:
  "bondpad snap shape diameter layer_top_metal layer_passiv layer_dfpad None =
   bondpad snap shape diameter layer_top_metal layer_passiv layer_dfpad (Some [])"
  by (simp add: bondpad_def or_empty_def)

lemma opening_cell_layer:
  "shape \<in> {''octagon'', ''square'', ''circle''} \<Longrightarrow>
     Option.bind (opening_cell snap shape d layer offset) cell_layer = Some layer"
  by (auto simp add: opening_cell_def Let_def)

lemma zip_layers_fst: "map (\<lambda>lo. Some (fst lo)) (zip [a, b] offs) = map Some (take (length offs) [a, b])"
proof -
  have "map (\<lambda>lo. Some (fst lo)) (zip [a, b] offs) = map Some (map fst (zip [a, b] offs))"
    by simp
  also have "map fst (zip [a, b] offs) = take (min (length [a, b]) (length offs)) [a, b]"
    by (rule map_fst_zip_take)
  also have "\<dots> = take (length offs) [a, b]"
    by (simp add: min_def)
  finally show ?thesis .
qed

lemma bondpad_returns_offset_cells:
  "shape \<in> {''octagon'', ''square'', ''circle''} \<Longrightarrow>
   \<exists>c. bondpad snap shape diameter layer_top_metal layer_passiv layer_dfpad (Some offs) = Inr c
     \<and> polygons c = []
     \<and> length (refs c) = 1 + min (length offs) 2
     \<and> map (\<lambda>r. cell_layer (fst r)) (refs c) =
         Some layer_top_metal # map Some (take (length offs) [layer_passiv, layer_dfpad])
     \<and> map (\<lambda>r. Some (fst r)) (tl (refs c)) =
         map (\<lambda>lo. opening_cell snap shape diameter (fst lo) (snd lo))
           (zip [layer_passiv, layer_dfpad] offs)"
proof -
  assume v: "shape \<in> {''octagon'', ''square'', ''circle''}"
  let ?los = "zip [layer_passiv, layer_dfpad] offs"
  let ?op = "\<lambda>lo. opening_cell snap shape diameter (fst lo) (snd lo)"
  from bondpad_valid [OF v, of snap diameter layer_top_metal layer_passiv layer_dfpad "Some offs"]
  obtain c base where bp: "bondpad snap shape diameter layer_top_metal layer_passiv layer_dfpad
        (Some offs) = Inr c"
    and bl: "cell_layer base = Some layer_top_metal"
    and rs: "map (\<lambda>r. Some (fst r)) (refs c) = Some base # map ?op ?los"
    and pg: "polygons c = []"
    unfolding or_empty_Some by (elim exE conjE) (rule that; assumption)
  have "length (map (\<lambda>r. Some (fst r)) (refs c)) = 1 + min (length offs) 2"
    unfolding rs by simp
  then have len: "length (refs c) = 1 + min (length offs) 2" by simp
  have "map (\<lambda>r. cell_layer (fst r)) (refs c) =
          map (\<lambda>x. Option.bind x cell_layer) (map (\<lambda>r. Some (fst r)) (refs c))"
    by simp
  also have "\<dots> = Some layer_top_metal # map (\<lambda>lo. Option.bind (?op lo) cell_layer) ?los"
    unfolding rs by (simp add: bl)
  also have "map (\<lambda>lo. Option.bind (?op lo) cell_layer) ?los = map (\<lambda>lo. Some (fst lo)) ?los"
    by (simp add: opening_cell_layer [OF v])
  also have "\<dots> = map Some (take (length offs) [layer_passiv, layer_dfpad])"
    by (rule zip_layers_fst)
  finally have lay: "map (\<lambda>r. cell_layer (fst r)) (refs c) =
         Some layer_top_metal # map Some (take (length offs) [layer_passiv, layer_dfpad])" .
  have "map (\<lambda>r. Some (fst r)) (tl (refs c)) = tl (map (\<lambda>r. Some (fst r)) (refs c))"
    by (simp add: map_tl)
  then have tlr: "map (\<lambda>r. Some (fst r)) (tl (refs c)) = map ?op ?los"
    unfolding rs by simp
  show ?thesis
    apply (rule exI [of _ c])
    apply (intro conjI)
        apply (rule bp)
       apply (rule pg)
      apply (rule len)
     apply (rule lay)
    apply (rule tlr)
    done
qed

section \<open>The component \<open>bondpad\<close> returns, shape by shape\<close>

lemma fold_add_opening_square:
  "fold (add_opening snap ''square'' d) los c =
     Component (refs c @ map (\<lambda>lo. (Rectangle (d + snd lo, d + snd lo) (fst lo) True, (0, 0))) los)
       (polygons c) (ports c) (info c)"
  by (induction los arbitrary: c) (simp_all add: add_opening_def opening_cell_def add_ref_def)

lemma fold_add_opening_octagon:
  "fold (add_opening snap ''octagon'' d) los c =
     Component (refs c @ map (\<lambda>lo. (Octagon (snap (snd lo + d / (1 + sqrt 2))) (fst lo), (0, 0))) los)
       (polygons c) (ports c) (info c)"
  by (induction los arbitrary: c) (simp_all add: add_opening_def opening_cell_def add_ref_def)

lemma fold_add_opening_circle:
  "fold (add_opening snap ''circle'' d) los c =
     Component (refs c @ map (\<lambda>lo. (Circle (d / 2 + snd lo / 2) (fst lo), (0, 0))) los)
       (polygons c) (ports c) (info c)"
  by (induction los arbitrary: c) (simp_all add: add_opening_def opening_cell_def add_ref_def)

lemma bondpad_square_value:
  "bondpad snap ''square'' d layer_top_metal layer_passiv layer_dfpad bbox_offsets =
     Inr (Component
           ((Rectangle (d, d) layer_top_metal True, (0, 0)) #
            map (\<lambda>lo. (Rectangle (d + snd lo, d + snd lo) (fst lo) True, (0, 0)))
              (zip [layer_passiv, layer_dfpad] (or_empty bbox_offsets)))
           []
           [\<lparr>port_name = ''pad'', port_center = (0, 0), port_width = d, port_orientation = 0,
             port_layer = layer_top_metal, port_type = Some ''electrical''\<rparr>]
           [(''shape'', PyStr ''square''), (''diameter'', PyFloat d),
            (''top_metal'', PyLayer layer_top_metal)])"
  by (simp add: bondpad_def Let_def fold_add_opening_square add_ref_def add_port_def set_info_def
      empty_component_def)

lemma bondpad_octagon_value:
  "bondpad snap ''octagon'' d layer_top_metal layer_passiv layer_dfpad bbox_offsets =
     Inr (Component
           ((Octagon (snap (d / (1 + sqrt 2))) layer_top_metal, (0, 0)) #
            map (\<lambda>lo. (Octagon (snap (snd lo + d / (1 + sqrt 2))) (fst lo), (0, 0)))
              (zip [layer_passiv, layer_dfpad] (or_empty bbox_offsets)))
           []
           [\<lparr>port_name = ''pad'', port_center = (0, 0), port_width = d, port_orientation = 0,
             port_layer = layer_top_metal, port_type = Some ''electrical''\<rparr>]
           [(''shape'', PyStr ''octagon''), (''diameter'', PyFloat d),
            (''top_metal'', PyLayer layer_top_metal)])"
  by (simp add: bondpad_def Let_def fold_add_opening_octagon add_ref_def add_port_def set_info_def
      empty_component_def)

lemma bondpad_circle_value:
  "bondpad snap ''circle'' d layer_top_metal layer_passiv layer_dfpad bbox_offsets =
     Inr (Component
           ((Circle (d / 2) layer_top_metal, (0, 0)) #
            map (\<lambda>lo. (Circle (d / 2 + snd lo / 2) (fst lo), (0, 0)))
              (zip [layer_passiv, layer_dfpad] (or_empty bbox_offsets)))
           []
           [\<lparr>port_name = ''pad'', port_center = (0, 0), port_width = d, port_orientation = 0,
             port_layer = layer_top_metal, port_type = Some ''electrical''\<rparr>]
           [(''shape'', PyStr ''circle''), (''diameter'', PyFloat d),
            (''top_metal'', PyLayer layer_top_metal)])"
  by (simp add: bondpad_def Let_def fold_add_opening_circle add_ref_def add_port_def set_info_def
      empty_component_def)

lemma first_error_single: "first_error check [x] = check x"
  by (simp split: option.splits)

section \<open>The offset layers of \<open>bondpad\<close>\<close>

lemma bondpad_checked_None_eq:
  "bondpad_checked L snap shape diameter layer_top_metal layer_passiv layer_dfpad None =
   bondpad_checked L snap shape diameter layer_top_metal layer_passiv layer_dfpad (Some [])"
  by (simp add: bondpad_checked_def bondpad_None_eq)

lemma bondpad_checked_returns:
  "bondpad_checked L snap shape diameter layer_top_metal layer_passiv layer_dfpad bbox_offsets = Inr c
     \<Longrightarrow> bondpad snap shape diameter layer_top_metal layer_passiv layer_dfpad bbox_offsets = Inr c"
  by (simp add: bondpad_checked_def split: sum.splits option.splits)

lemma bondpad_checked_of_value:
  "bondpad snap shape d layer_top_metal layer_passiv layer_dfpad bbox_offsets =
     Inr (Component R G [P] I) \<Longrightarrow>
   bondpad_checked L snap shape d layer_top_metal layer_passiv layer_dfpad bbox_offsets =
     (case first_error (cell_error L) (map fst R) of
        Some e \<Rightarrow> Inl e
      | None \<Rightarrow>
         (case port_error L P of
            Some e \<Rightarrow> Inl e
          | None \<Rightarrow> Inr (Component R G [P] I)))"
  by (simp add: bondpad_checked_def first_error_single split: option.splits)

lemma map_fst_placed: "map fst (map (\<lambda>x. (f x, p)) xs) = map f xs"
  by (simp add: comp_def)

text \<open>
  C9, as amended. For every list of offsets \<^verbatim>\<open>bondpad\<close> asks the library for the top metal
  shape and then for exactly \<open>min (length offs) 2\<close> further shapes, the offsets in order, each
  paired with the layer at the same position of (passivation, dfpad): a square of side
  \<open>d + offset\<close>, an octagon of side \<open>snap_to_grid2x (offset + d / (1 + sqrt 2))\<close>, a circle of
  radius \<open>d / 2 + offset / 2\<close>. Where the library accepts every one of these shapes and the
  port, \<^verbatim>\<open>bondpad\<close> returns exactly them, one polygon each, and raises nothing, also when
  the offsets are fewer than the layers; where the library rejects a shape or the port,
  \<^verbatim>\<open>bondpad\<close> raises the library's error. A component that \<^verbatim>\<open>bondpad\<close> returns has
  \<open>1 + min (length offs) 2\<close> cells, on the top metal layer and the matching prefix of the
  two offset layers.
\<close>

theorem bondpad_offset_layers:
  "bondpad_checked L snap ''square'' d layer_top_metal layer_passiv layer_dfpad (Some offs) =
     (case first_error (cell_error L)
             (Rectangle (d, d) layer_top_metal True #
              map (\<lambda>lo. Rectangle (d + snd lo, d + snd lo) (fst lo) True)
                (zip [layer_passiv, layer_dfpad] offs)) of
        Some e \<Rightarrow> Inl e
      | None \<Rightarrow>
         (case port_error L
                 \<lparr>port_name = ''pad'', port_center = (0, 0), port_width = d,
                  port_orientation = 0, port_layer = layer_top_metal,
                  port_type = Some ''electrical''\<rparr> of
            Some e \<Rightarrow> Inl e
          | None \<Rightarrow>
             Inr (Component
                   ((Rectangle (d, d) layer_top_metal True, (0, 0)) #
                    map (\<lambda>lo. (Rectangle (d + snd lo, d + snd lo) (fst lo) True, (0, 0)))
                      (zip [layer_passiv, layer_dfpad] offs))
                   []
                   [\<lparr>port_name = ''pad'', port_center = (0, 0), port_width = d,
                     port_orientation = 0, port_layer = layer_top_metal,
                     port_type = Some ''electrical''\<rparr>]
                   [(''shape'', PyStr ''square''), (''diameter'', PyFloat d),
                    (''top_metal'', PyLayer layer_top_metal)])))
   \<and> bondpad_checked L snap ''octagon'' d layer_top_metal layer_passiv layer_dfpad (Some offs) =
     (case first_error (cell_error L)
             (Octagon (snap (d / (1 + sqrt 2))) layer_top_metal #
              map (\<lambda>lo. Octagon (snap (snd lo + d / (1 + sqrt 2))) (fst lo))
                (zip [layer_passiv, layer_dfpad] offs)) of
        Some e \<Rightarrow> Inl e
      | None \<Rightarrow>
         (case port_error L
                 \<lparr>port_name = ''pad'', port_center = (0, 0), port_width = d,
                  port_orientation = 0, port_layer = layer_top_metal,
                  port_type = Some ''electrical''\<rparr> of
            Some e \<Rightarrow> Inl e
          | None \<Rightarrow>
             Inr (Component
                   ((Octagon (snap (d / (1 + sqrt 2))) layer_top_metal, (0, 0)) #
                    map (\<lambda>lo. (Octagon (snap (snd lo + d / (1 + sqrt 2))) (fst lo), (0, 0)))
                      (zip [layer_passiv, layer_dfpad] offs))
                   []
                   [\<lparr>port_name = ''pad'', port_center = (0, 0), port_width = d,
                     port_orientation = 0, port_layer = layer_top_metal,
                     port_type = Some ''electrical''\<rparr>]
                   [(''shape'', PyStr ''octagon''), (''diameter'', PyFloat d),
                    (''top_metal'', PyLayer layer_top_metal)])))
   \<and> bondpad_checked L snap ''circle'' d layer_top_metal layer_passiv layer_dfpad (Some offs) =
     (case first_error (cell_error L)
             (Circle (d / 2) layer_top_metal #
              map (\<lambda>lo. Circle (d / 2 + snd lo / 2) (fst lo))
                (zip [layer_passiv, layer_dfpad] offs)) of
        Some e \<Rightarrow> Inl e
      | None \<Rightarrow>
         (case port_error L
                 \<lparr>port_name = ''pad'', port_center = (0, 0), port_width = d,
                  port_orientation = 0, port_layer = layer_top_metal,
                  port_type = Some ''electrical''\<rparr> of
            Some e \<Rightarrow> Inl e
          | None \<Rightarrow>
             Inr (Component
                   ((Circle (d / 2) layer_top_metal, (0, 0)) #
                    map (\<lambda>lo. (Circle (d / 2 + snd lo / 2) (fst lo), (0, 0)))
                      (zip [layer_passiv, layer_dfpad] offs))
                   []
                   [\<lparr>port_name = ''pad'', port_center = (0, 0), port_width = d,
                     port_orientation = 0, port_layer = layer_top_metal,
                     port_type = Some ''electrical''\<rparr>]
                   [(''shape'', PyStr ''circle''), (''diameter'', PyFloat d),
                    (''top_metal'', PyLayer layer_top_metal)])))
   \<and> (shape \<in> {''octagon'', ''square'', ''circle''} \<longrightarrow>
        bondpad_checked L snap shape d layer_top_metal layer_passiv layer_dfpad (Some offs) = Inr c \<longrightarrow>
          polygons c = [] \<and>
          length (refs c) = 1 + min (length offs) 2 \<and>
          map (\<lambda>r. cell_layer (fst r)) (refs c) =
            Some layer_top_metal # map Some (take (length offs) [layer_passiv, layer_dfpad]))"
proof -
  have sq: "bondpad_checked L snap ''square'' d layer_top_metal layer_passiv layer_dfpad (Some offs) =
     (case first_error (cell_error L)
             (Rectangle (d, d) layer_top_metal True #
              map (\<lambda>lo. Rectangle (d + snd lo, d + snd lo) (fst lo) True)
                (zip [layer_passiv, layer_dfpad] offs)) of
        Some e \<Rightarrow> Inl e
      | None \<Rightarrow>
         (case port_error L
                 \<lparr>port_name = ''pad'', port_center = (0, 0), port_width = d,
                  port_orientation = 0, port_layer = layer_top_metal,
                  port_type = Some ''electrical''\<rparr> of
            Some e \<Rightarrow> Inl e
          | None \<Rightarrow>
             Inr (Component
                   ((Rectangle (d, d) layer_top_metal True, (0, 0)) #
                    map (\<lambda>lo. (Rectangle (d + snd lo, d + snd lo) (fst lo) True, (0, 0)))
                      (zip [layer_passiv, layer_dfpad] offs))
                   []
                   [\<lparr>port_name = ''pad'', port_center = (0, 0), port_width = d,
                     port_orientation = 0, port_layer = layer_top_metal,
                     port_type = Some ''electrical''\<rparr>]
                   [(''shape'', PyStr ''square''), (''diameter'', PyFloat d),
                    (''top_metal'', PyLayer layer_top_metal)])))"
    using bondpad_checked_of_value [OF bondpad_square_value, of L snap d layer_top_metal
        layer_passiv layer_dfpad "Some offs"]
    unfolding or_empty_Some list.map fst_conv map_fst_placed .
  have oc: "bondpad_checked L snap ''octagon'' d layer_top_metal layer_passiv layer_dfpad (Some offs) =
     (case first_error (cell_error L)
             (Octagon (snap (d / (1 + sqrt 2))) layer_top_metal #
              map (\<lambda>lo. Octagon (snap (snd lo + d / (1 + sqrt 2))) (fst lo))
                (zip [layer_passiv, layer_dfpad] offs)) of
        Some e \<Rightarrow> Inl e
      | None \<Rightarrow>
         (case port_error L
                 \<lparr>port_name = ''pad'', port_center = (0, 0), port_width = d,
                  port_orientation = 0, port_layer = layer_top_metal,
                  port_type = Some ''electrical''\<rparr> of
            Some e \<Rightarrow> Inl e
          | None \<Rightarrow>
             Inr (Component
                   ((Octagon (snap (d / (1 + sqrt 2))) layer_top_metal, (0, 0)) #
                    map (\<lambda>lo. (Octagon (snap (snd lo + d / (1 + sqrt 2))) (fst lo), (0, 0)))
                      (zip [layer_passiv, layer_dfpad] offs))
                   []
                   [\<lparr>port_name = ''pad'', port_center = (0, 0), port_width = d,
                     port_orientation = 0, port_layer = layer_top_metal,
                     port_type = Some ''electrical''\<rparr>]
                   [(''shape'', PyStr ''octagon''), (''diameter'', PyFloat d),
                    (''top_metal'', PyLayer layer_top_metal)])))"
    using bondpad_checked_of_value [OF bondpad_octagon_value, of L snap d layer_top_metal
        layer_passiv layer_dfpad "Some offs"]
    unfolding or_empty_Some list.map fst_conv map_fst_placed .
  have ci: "bondpad_checked L snap ''circle'' d layer_top_metal layer_passiv layer_dfpad (Some offs) =
     (case first_error (cell_error L)
             (Circle (d / 2) layer_top_metal #
              map (\<lambda>lo. Circle (d / 2 + snd lo / 2) (fst lo))
                (zip [layer_passiv, layer_dfpad] offs)) of
        Some e \<Rightarrow> Inl e
      | None \<Rightarrow>
         (case port_error L
                 \<lparr>port_name = ''pad'', port_center = (0, 0), port_width = d,
                  port_orientation = 0, port_layer = layer_top_metal,
                  port_type = Some ''electrical''\<rparr> of
            Some e \<Rightarrow> Inl e
          | None \<Rightarrow>
             Inr (Component
                   ((Circle (d / 2) layer_top_metal, (0, 0)) #
                    map (\<lambda>lo. (Circle (d / 2 + snd lo / 2) (fst lo), (0, 0)))
                      (zip [layer_passiv, layer_dfpad] offs))
                   []
                   [\<lparr>port_name = ''pad'', port_center = (0, 0), port_width = d,
                     port_orientation = 0, port_layer = layer_top_metal,
                     port_type = Some ''electrical''\<rparr>]
                   [(''shape'', PyStr ''circle''), (''diameter'', PyFloat d),
                    (''top_metal'', PyLayer layer_top_metal)])))"
    using bondpad_checked_of_value [OF bondpad_circle_value, of L snap d layer_top_metal
        layer_passiv layer_dfpad "Some offs"]
    unfolding or_empty_Some list.map fst_conv map_fst_placed .
  have cnt: "polygons c = [] \<and>
          length (refs c) = 1 + min (length offs) 2 \<and>
          map (\<lambda>r. cell_layer (fst r)) (refs c) =
            Some layer_top_metal # map Some (take (length offs) [layer_passiv, layer_dfpad])"
    if v: "shape \<in> {''octagon'', ''square'', ''circle''}"
      and r: "bondpad_checked L snap shape d layer_top_metal layer_passiv layer_dfpad (Some offs) = Inr c"
  proof -
    from r have b: "bondpad snap shape d layer_top_metal layer_passiv layer_dfpad (Some offs) = Inr c"
      by (rule bondpad_checked_returns)
    from bondpad_returns_offset_cells [OF v, of snap d layer_top_metal layer_passiv layer_dfpad offs]
    obtain c' where b': "bondpad snap shape d layer_top_metal layer_passiv layer_dfpad (Some offs) = Inr c'"
      and f: "polygons c' = [] \<and>
          length (refs c') = 1 + min (length offs) 2 \<and>
          map (\<lambda>r. cell_layer (fst r)) (refs c') =
            Some layer_top_metal # map Some (take (length offs) [layer_passiv, layer_dfpad])"
      by (elim exE conjE) (rule that; (intro conjI)?; assumption)
    from b b' have "c' = c" by simp
    with f show ?thesis by simp
  qed
  from sq oc ci cnt show ?thesis by blast
qed

theorem bondpad_offset_layers_witness:
  "bondpad_checked rectangle_checks snap_2nm ''square'' 80 TopMetal2drawing Passivpillar
      dfpaddrawing (Some [-2.1, 0]) =
     Inr (Component
           [(Rectangle (80, 80) TopMetal2drawing True, (0, 0)),
            (Rectangle (77.9, 77.9) Passivpillar True, (0, 0)),
            (Rectangle (80, 80) dfpaddrawing True, (0, 0))]
           []
           [\<lparr>port_name = ''pad'', port_center = (0, 0), port_width = 80,
             port_orientation = 0, port_layer = TopMetal2drawing,
             port_type = Some ''electrical''\<rparr>]
           [(''shape'', PyStr ''square''), (''diameter'', PyFloat 80),
            (''top_metal'', PyLayer TopMetal2drawing)])
   \<and> bondpad_checked rectangle_checks snap_2nm ''octagon'' 80 TopMetal2drawing Passivpillar
      dfpaddrawing (Some [-2.1]) =
     Inr (Component
           [(Octagon (snap_2nm (80 / (1 + sqrt 2))) TopMetal2drawing, (0, 0)),
            (Octagon (snap_2nm (- 2.1 + 80 / (1 + sqrt 2))) Passivpillar, (0, 0))]
           []
           [\<lparr>port_name = ''pad'', port_center = (0, 0), port_width = 80,
             port_orientation = 0, port_layer = TopMetal2drawing,
             port_type = Some ''electrical''\<rparr>]
           [(''shape'', PyStr ''octagon''), (''diameter'', PyFloat 80),
            (''top_metal'', PyLayer TopMetal2drawing)])
   \<and> ''square'' \<in> {''octagon'', ''square'', ''circle''}
   \<and> length (refs (Component
           [(Rectangle (80, 80) TopMetal2drawing True, (0, 0)),
            (Rectangle (77.9, 77.9) Passivpillar True, (0, 0)),
            (Rectangle (80, 80) dfpaddrawing True, (0, 0))]
           []
           [\<lparr>port_name = ''pad'', port_center = (0, 0), port_width = 80,
             port_orientation = 0, port_layer = TopMetal2drawing,
             port_type = Some ''electrical''\<rparr>]
           [(''shape'', PyStr ''square''), (''diameter'', PyFloat 80),
            (''top_metal'', PyLayer TopMetal2drawing)])) = 1 + min (length [- 2.1, 0 :: real]) 2"
proof -
  have a: "bondpad_checked rectangle_checks snap_2nm ''square'' 80 TopMetal2drawing Passivpillar
      dfpaddrawing (Some [-2.1, 0]) =
     Inr (Component
           [(Rectangle (80, 80) TopMetal2drawing True, (0, 0)),
            (Rectangle (77.9, 77.9) Passivpillar True, (0, 0)),
            (Rectangle (80, 80) dfpaddrawing True, (0, 0))]
           []
           [\<lparr>port_name = ''pad'', port_center = (0, 0), port_width = 80,
             port_orientation = 0, port_layer = TopMetal2drawing,
             port_type = Some ''electrical''\<rparr>]
           [(''shape'', PyStr ''square''), (''diameter'', PyFloat 80),
            (''top_metal'', PyLayer TopMetal2drawing)])"
    using bondpad_offset_layers [of rectangle_checks snap_2nm 80 TopMetal2drawing Passivpillar
        dfpaddrawing "[-2.1, 0]"]
    by (simp add: rectangle_checks_def)
  have b: "bondpad_checked rectangle_checks snap_2nm ''octagon'' 80 TopMetal2drawing Passivpillar
      dfpaddrawing (Some [-2.1]) =
     Inr (Component
           [(Octagon (snap_2nm (80 / (1 + sqrt 2))) TopMetal2drawing, (0, 0)),
            (Octagon (snap_2nm (- 2.1 + 80 / (1 + sqrt 2))) Passivpillar, (0, 0))]
           []
           [\<lparr>port_name = ''pad'', port_center = (0, 0), port_width = 80,
             port_orientation = 0, port_layer = TopMetal2drawing,
             port_type = Some ''electrical''\<rparr>]
           [(''shape'', PyStr ''octagon''), (''diameter'', PyFloat 80),
            (''top_metal'', PyLayer TopMetal2drawing)])"
    using bondpad_offset_layers [of rectangle_checks snap_2nm 80 TopMetal2drawing Passivpillar
        dfpaddrawing "[-2.1]"]
    by (simp add: rectangle_checks_def)
  have h: "''square'' \<in> {''octagon'', ''square'', ''circle''}" by simp
  have c: "length (refs (Component
           [(Rectangle (80, 80) TopMetal2drawing True, (0, 0)),
            (Rectangle (77.9, 77.9) Passivpillar True, (0, 0)),
            (Rectangle (80, 80) dfpaddrawing True, (0, 0))]
           []
           [\<lparr>port_name = ''pad'', port_center = (0, 0), port_width = 80,
             port_orientation = 0, port_layer = TopMetal2drawing,
             port_type = Some ''electrical''\<rparr>]
           [(''shape'', PyStr ''square''), (''diameter'', PyFloat 80),
            (''top_metal'', PyLayer TopMetal2drawing)])) = 1 + min (length [- 2.1, 0 :: real]) 2"
    using bondpad_offset_layers [of rectangle_checks snap_2nm 80 TopMetal2drawing Passivpillar
        dfpaddrawing "[-2.1, 0]" "''square''"] h a
    by blast
  from a b h c show ?thesis by (intro conjI)
qed

text \<open>
  C9 as stated has \<^verbatim>\<open>bondpad\<close> raise nothing for every list of offsets. A square pad of
  diameter 80 with the single offset \<open>-100\<close> asks for a rectangle of sides \<open>(-20, -20)\<close>, which
  the library rejects: the call raises \<^verbatim>\<open>ValueError\<close>.
\<close>

theorem bondpad_rejected_opening_counterexample:
  "bondpad_checked rectangle_checks snap_2nm ''square'' 80 TopMetal2drawing Passivpillar
      dfpaddrawing (Some [-100]) = Inl (ValueError ''dx and dy must be > 0'')"
  by (simp add: bondpad_checked_def bondpad_square_value or_empty_def rectangle_checks_def)

text \<open>
  C10. \<^verbatim>\<open>bondpad\<close> with \<^verbatim>\<open>bbox_offsets=None\<close> builds the top metal shape alone (the square of
  side \<open>d\<close>, the octagon of side \<open>snap_to_grid2x (d / (1 + sqrt 2))\<close>, the circle of radius
  \<open>d / 2\<close>), no other polygon, and the single port \<open>pad\<close>; \<^verbatim>\<open>None\<close> gives what the empty list
  of offsets gives, with and without the checks of the library.
\<close>

theorem bondpad_no_offsets:
  "bondpad snap ''square'' d layer_top_metal layer_passiv layer_dfpad None =
     Inr (Component
           [(Rectangle (d, d) layer_top_metal True, (0, 0))]
           []
           [\<lparr>port_name = ''pad'', port_center = (0, 0), port_width = d,
             port_orientation = 0, port_layer = layer_top_metal,
             port_type = Some ''electrical''\<rparr>]
           [(''shape'', PyStr ''square''), (''diameter'', PyFloat d),
            (''top_metal'', PyLayer layer_top_metal)])
   \<and> bondpad snap ''octagon'' d layer_top_metal layer_passiv layer_dfpad None =
     Inr (Component
           [(Octagon (snap (d / (1 + sqrt 2))) layer_top_metal, (0, 0))]
           []
           [\<lparr>port_name = ''pad'', port_center = (0, 0), port_width = d,
             port_orientation = 0, port_layer = layer_top_metal,
             port_type = Some ''electrical''\<rparr>]
           [(''shape'', PyStr ''octagon''), (''diameter'', PyFloat d),
            (''top_metal'', PyLayer layer_top_metal)])
   \<and> bondpad snap ''circle'' d layer_top_metal layer_passiv layer_dfpad None =
     Inr (Component
           [(Circle (d / 2) layer_top_metal, (0, 0))]
           []
           [\<lparr>port_name = ''pad'', port_center = (0, 0), port_width = d,
             port_orientation = 0, port_layer = layer_top_metal,
             port_type = Some ''electrical''\<rparr>]
           [(''shape'', PyStr ''circle''), (''diameter'', PyFloat d),
            (''top_metal'', PyLayer layer_top_metal)])
   \<and> bondpad snap shape d layer_top_metal layer_passiv layer_dfpad None =
       bondpad snap shape d layer_top_metal layer_passiv layer_dfpad (Some [])
   \<and> bondpad_checked L snap shape d layer_top_metal layer_passiv layer_dfpad None =
       bondpad_checked L snap shape d layer_top_metal layer_passiv layer_dfpad (Some [])"
proof -
  have sq: "bondpad snap ''square'' d layer_top_metal layer_passiv layer_dfpad None =
     Inr (Component
           [(Rectangle (d, d) layer_top_metal True, (0, 0))]
           []
           [\<lparr>port_name = ''pad'', port_center = (0, 0), port_width = d,
             port_orientation = 0, port_layer = layer_top_metal,
             port_type = Some ''electrical''\<rparr>]
           [(''shape'', PyStr ''square''), (''diameter'', PyFloat d),
            (''top_metal'', PyLayer layer_top_metal)])"
    unfolding bondpad_square_value or_empty_None by simp
  have oc: "bondpad snap ''octagon'' d layer_top_metal layer_passiv layer_dfpad None =
     Inr (Component
           [(Octagon (snap (d / (1 + sqrt 2))) layer_top_metal, (0, 0))]
           []
           [\<lparr>port_name = ''pad'', port_center = (0, 0), port_width = d,
             port_orientation = 0, port_layer = layer_top_metal,
             port_type = Some ''electrical''\<rparr>]
           [(''shape'', PyStr ''octagon''), (''diameter'', PyFloat d),
            (''top_metal'', PyLayer layer_top_metal)])"
    unfolding bondpad_octagon_value or_empty_None by simp
  have ci: "bondpad snap ''circle'' d layer_top_metal layer_passiv layer_dfpad None =
     Inr (Component
           [(Circle (d / 2) layer_top_metal, (0, 0))]
           []
           [\<lparr>port_name = ''pad'', port_center = (0, 0), port_width = d,
             port_orientation = 0, port_layer = layer_top_metal,
             port_type = Some ''electrical''\<rparr>]
           [(''shape'', PyStr ''circle''), (''diameter'', PyFloat d),
            (''top_metal'', PyLayer layer_top_metal)])"
    unfolding bondpad_circle_value or_empty_None by simp
  have e1: "bondpad snap shape d layer_top_metal layer_passiv layer_dfpad None =
       bondpad snap shape d layer_top_metal layer_passiv layer_dfpad (Some [])"
    by (rule bondpad_None_eq)
  have e2: "bondpad_checked L snap shape d layer_top_metal layer_passiv layer_dfpad None =
       bondpad_checked L snap shape d layer_top_metal layer_passiv layer_dfpad (Some [])"
    by (rule bondpad_checked_None_eq)
  from sq oc ci e1 e2 show ?thesis by (intro conjI)
qed

end
